theory Spec2Isabelle
  imports Main "HOL-Library.Multiset" "HOL-Library.Char_ord" "HOL-Library.List_Lexorder"
begin

section \<open>JavaScript values used by the timetable pages\<close>

text \<open>
  A JavaScript object of type \<open>Record<string, V>\<close> is modelled by the list of its own
  enumerable properties in enumeration order, which is what \<open>Object.entries\<close>,
  \<open>Object.keys\<close> and \<open>Object.values\<close> walk through. A property read \<open>obj[k]\<close> is
  \<^const>\<open>map_of\<close>: \<open>None\<close> stands for \<open>undefined\<close>. An object has every key once, so a
  well-formed object is a list with distinct keys. A read also finds the properties
  that the object inherits; where the source reads a key that can name one, in
  \<open>processSections\<close>, the model looks them up as well. JavaScript enumerates keys that
  are array indices before all others; day names and time slots are not, and nothing
  proved below depends on where a new key is placed. A \<open>Map\<close> is modelled the same
  way, in insertion order, and has no inherited keys. Strings are lists of ASCII
  characters.
\<close>

type_synonym 'v js_object = "(string \<times> 'v) list"

text \<open>\<open>if (!obj[k]) obj[k] = v\<close>, for values that are objects or arrays (always truthy):
  the key is added last when it is missing, and nothing changes otherwise.\<close>

definition ensure :: "string \<Rightarrow> 'v \<Rightarrow> 'v js_object \<Rightarrow> 'v js_object" where
  "ensure k v m = (if map_of m k = None then m @ [(k, v)] else m)"

text \<open>In-place mutation of the value stored under an existing key.\<close>

fun modify :: "string \<Rightarrow> ('v \<Rightarrow> 'v) \<Rightarrow> 'v js_object \<Rightarrow> 'v js_object" where
  "modify k f [] = []"
| "modify k f ((k', v) # m) = (if k = k' then (k', f v) # m else (k', v) # modify k f m)"

text \<open>\<open>Set.prototype.add\<close> on an insertion-ordered set.\<close>

definition set_add :: "'a \<Rightarrow> 'a list \<Rightarrow> 'a list" where
  "set_add x xs = (if x \<in> set xs then xs else xs @ [x])"

text \<open>\<open>String.prototype.startsWith\<close>.\<close>

definition startsWith :: "string \<Rightarrow> string \<Rightarrow> bool" where
  "startsWith s p = (take (length p) s = p)"

text \<open>\<open>String.prototype.split\<close> with a one-character separator: the result is never
  empty, and the empty string splits into one empty piece.\<close>

fun js_split :: "char \<Rightarrow> string \<Rightarrow> string list" where
  "js_split c [] = [[]]"
| "js_split c (x # xs) =
     (if x = c then [] # js_split c xs
      else (case js_split c xs of
              p # ps \<Rightarrow> (x # p) # ps
            | [] \<Rightarrow> [[x]]))"

text \<open>\<open>Array.prototype.join\<close>.\<close>

fun js_join :: "string \<Rightarrow> string list \<Rightarrow> string" where
  "js_join sep [] = []"
| "js_join sep [x] = x"
| "js_join sep (x # y # ys) = x @ sep @ js_join sep (y # ys)"

text \<open>Truthiness of an optional string field: \<open>undefined\<close> and the empty string are
  falsy.\<close>

fun truthy :: "string option \<Rightarrow> bool" where
  "truthy None = False"
| "truthy (Some s) = (s \<noteq> [])"

text \<open>
  \<open>Array.prototype.sort\<close> with a comparison function. The standard requires a stable
  sort: of two elements the earlier one stays first unless the comparison function
  returns a positive number for them. Stable insertion sort is that order.
\<close>

fun sort_insert :: "('a \<Rightarrow> 'a \<Rightarrow> int) \<Rightarrow> 'a \<Rightarrow> 'a list \<Rightarrow> 'a list" where
  "sort_insert cmp x [] = [x]"
| "sort_insert cmp x (y # ys) =
     (if cmp x y \<le> 0 then x # y # ys else y # sort_insert cmp x ys)"

definition js_sort :: "('a \<Rightarrow> 'a \<Rightarrow> int) \<Rightarrow> 'a list \<Rightarrow> 'a list" where
  "js_sort cmp xs = foldr (sort_insert cmp) xs []"

text \<open>
  \<open>String.prototype.localeCompare\<close> belongs to the JavaScript engine and depends on its
  locale data, so the grid takes it as a parameter of type \<open>string \<Rightarrow> string \<Rightarrow> int\<close>.
  \<open>codeUnitCompare\<close> is the comparison by character codes, with which the engine's
  comparison agrees on start times of the fixed-width form \<open>HH:MM:SS\<close> and on no
  more than that: see \<open>collationCompare\<close> below.
\<close>

definition codeUnitCompare :: "string \<Rightarrow> string \<Rightarrow> int" where
  "codeUnitCompare a b = (if a < b then - 1 else if a = b then 0 else 1)"

text \<open>The error that the engine throws where a value that is no function is called, or a
  property of \<open>undefined\<close> is read.\<close>

datatype js_error = TypeError

text \<open>
  The engine's comparison on the characters of time strings: in the default collation
  punctuation such as \<open>:\<close> sorts before every digit, and the digits sort by value. The
  first character that differs decides, and a proper prefix comes first.
\<close>

definition collation_weight :: "char \<Rightarrow> nat" where
  "collation_weight c =
     (if CHR ''0'' \<le> c \<and> c \<le> CHR ''9'' then 256 + of_char c else of_char c)"

fun collationCompare :: "string \<Rightarrow> string \<Rightarrow> int" where
  "collationCompare [] [] = 0"
| "collationCompare [] (y # ys) = - 1"
| "collationCompare (x # xs) [] = 1"
| "collationCompare (x # xs) (y # ys) =
     (if collation_weight x < collation_weight y then - 1
      else if collation_weight y < collation_weight x then 1
      else collationCompare xs ys)"

subsection \<open>Properties that the engine's own objects provide\<close>

text \<open>
  A property read \<open>obj[k]\<close> that finds no own property goes on to the prototype of
  \<open>obj\<close>. Every plain object inherits the properties of \<open>Object.prototype\<close>: eleven
  functions and \<open>__proto__\<close>, which reads as the prototype itself. A function inherits
  those of \<open>Function.prototype\<close> besides its own \<open>length\<close> and \<open>name\<close> (the function
  \<open>Object\<close>, which is what \<open>constructor\<close> reads as, has its static methods and
  \<open>prototype\<close> as well), and an array those of \<open>Array.prototype\<close>. The names are those
  of ECMAScript 2024.
\<close>

definition Object_prototype_keys :: "string list" where
  "Object_prototype_keys =
     [''constructor'', ''__defineGetter__'', ''__defineSetter__'', ''hasOwnProperty'',
      ''__lookupGetter__'', ''__lookupSetter__'', ''isPrototypeOf'', ''propertyIsEnumerable'',
      ''toString'', ''valueOf'', ''__proto__'', ''toLocaleString'']"

definition Function_prototype_keys :: "string list" where
  "Function_prototype_keys =
     [''length'', ''name'', ''arguments'', ''caller'', ''constructor'', ''apply'', ''bind'',
      ''call'', ''toString'']"

definition Object_constructor_keys :: "string list" where
  "Object_constructor_keys =
     [''prototype'', ''assign'', ''create'', ''defineProperties'', ''defineProperty'', ''entries'',
      ''freeze'', ''fromEntries'', ''getOwnPropertyDescriptor'', ''getOwnPropertyDescriptors'',
      ''getOwnPropertyNames'', ''getOwnPropertySymbols'', ''getPrototypeOf'', ''groupBy'',
      ''hasOwn'', ''is'', ''isExtensible'', ''isFrozen'', ''isSealed'', ''keys'',
      ''preventExtensions'', ''seal'', ''setPrototypeOf'', ''values'']"

definition function_own_keys :: "string \<Rightarrow> string list" where
  "function_own_keys k =
     [''length'', ''name''] @ (if k = ''constructor'' then Object_constructor_keys else [])"

definition Array_prototype_keys :: "string list" where
  "Array_prototype_keys =
     [''length'', ''constructor'', ''at'', ''concat'', ''copyWithin'', ''entries'', ''every'',
      ''fill'', ''filter'', ''find'', ''findIndex'', ''findLast'', ''findLastIndex'', ''flat'',
      ''flatMap'', ''forEach'', ''includes'', ''indexOf'', ''join'', ''keys'', ''lastIndexOf'',
      ''map'', ''pop'', ''push'', ''reduce'', ''reduceRight'', ''reverse'', ''shift'', ''slice'',
      ''some'', ''sort'', ''splice'', ''toLocaleString'', ''toReversed'', ''toSorted'',
      ''toSpliced'', ''toString'', ''unshift'', ''values'', ''with'']"

text \<open>The decimal numeral of a number, and the array index that a property name denotes:
  the name must be the numeral of a number below \<open>2\<^sup>3\<^sup>2 - 1\<close>.\<close>

function decimal :: "nat \<Rightarrow> string" where
  "decimal n =
     (if n < 10 then [char_of (48 + n)]
      else decimal (n div 10) @ [char_of (48 + n mod 10)])"
  by pat_completeness auto
termination
  by (relation "measure id") auto

declare decimal.simps [simp del]

definition array_index :: "string \<Rightarrow> nat option" where
  "array_index k =
     (let n = foldl (\<lambda>n c. 10 * n + (of_char c - 48)) (0::nat) k
      in if k \<noteq> [] \<and> list_all (\<lambda>c. CHR ''0'' \<le> c \<and> c \<le> CHR ''9'') k
            \<and> decimal n = k \<and> n < 4294967295
         then Some n else None)"


section \<open>Data model of the timetable pages\<close>

text \<open>The field \<open>section\<close> of the source is \<open>section_name\<close> here.\<close>

record TimetableClass =
  class_id :: string
  course :: string
  course_id :: string
  instructor :: string
  room :: string
  section_name :: string
  course_type :: string

type_synonym DaySchedule = "TimetableClass list js_object"

type_synonym Schedule = "DaySchedule js_object"

text \<open>\<open>fitness\<close> is a number that the modelled functions never inspect.\<close>

record TimetableData =
  timetable_name :: string
  fitness :: int
  tt_schedule :: Schedule

record SectionData =
  sd_section :: string
  sd_schedule :: Schedule

text \<open>
  The content of the cell \<open>schedule[day]?.[timeSlot] || []\<close>, by own properties. The
  grid reads it for its five day names, which no object inherits, and for the time slot
  of a row; a row whose time slot names an inherited property is never rendered, since
  such a name has no \<open>-\<close> and the row's label throws first.
\<close>

definition cell_at :: "Schedule \<Rightarrow> string \<Rightarrow> string \<Rightarrow> TimetableClass list" where
  "cell_at schedule day timeSlot =
     (case map_of schedule day of
        None \<Rightarrow> []
      | Some daySchedule \<Rightarrow>
          (case map_of daySchedule timeSlot of None \<Rightarrow> [] | Some classes \<Rightarrow> classes))"



section \<open>The timetable detail page\<close>

datatype toast = Toast_error string "nat option" | Toast_success string

datatype api_call = Api_get string | Api_patch string string string string

text \<open>
  The state of the page: the route parameter, the four \<open>useState\<close> cells, and the two
  effects the handlers have on the outside, the toasts shown and the requests sent.
  Console output is not modelled.
\<close>

record app_state =
  params_id :: string
  timetable :: "TimetableData option"
  sections :: "SectionData list"
  loading :: bool
  editMode :: bool
  toasts :: "toast list"
  api_calls :: "api_call list"

subsection \<open>processSections\<close>

text \<open>
  The loop body tests \<open>!obj[day]\<close> and \<open>!obj[day][timeSlot]\<close> on plain objects, so it sees
  inherited properties too. When a day or a time slot names one, the class is not filed
  in the section's own schedule: the loop goes on with an object of the engine, on which
  it stores the class, or the call of \<open>push\<close> throws. What the loop has stored on the
  engine's objects is tracked for the run of \<open>processSections\<close>, which starts from the
  objects as the engine provides them; it is not carried over to a later run, and the
  grid is modelled with the objects as the engine provides them.

  \<open>on_functions\<close> holds the arrays stored on the functions of \<open>Object.prototype\<close>,
  \<open>on_prototype\<close> the arrays stored on \<open>Object.prototype\<close> itself, which every plain
  object, function and array inherits from then on, and \<open>on_array_prototype\<close> the
  classes pushed onto \<open>Array.prototype\<close>. An array on \<open>Object.prototype\<close> has the classes
  pushed onto it as elements and, where the loop has gone through it as a day, further
  arrays as properties.
\<close>

datatype array_prop = Elem TimetableClass | Inner "TimetableClass list"

record proto_array =
  array_props :: "array_prop js_object"
  array_length :: nat

record engine_objects =
  on_functions :: "DaySchedule js_object"
  on_prototype :: "proto_array js_object"
  on_array_prototype :: "TimetableClass list"

definition pristine :: engine_objects where
  "pristine = \<lparr>on_functions = [], on_prototype = [], on_array_prototype = []\<rparr>"

text \<open>A plain object inherits a property of this name.\<close>

definition inherited :: "engine_objects \<Rightarrow> string \<Rightarrow> bool" where
  "inherited r k = (k \<in> set Object_prototype_keys \<or> map_of (on_prototype r) k \<noteq> None)"

text \<open>\<open>push\<close> on an array of \<open>Object.prototype\<close>, which the loop creates when it finds
  nothing under the name.\<close>

definition array_push :: "TimetableClass \<Rightarrow> proto_array \<Rightarrow> proto_array" where
  "array_push c a =
     a\<lparr>array_props := array_props a @ [(decimal (array_length a), Elem c)],
       array_length := Suc (array_length a)\<rparr>"

definition push_on_prototype :: "string \<Rightarrow> TimetableClass \<Rightarrow> engine_objects \<Rightarrow> engine_objects" where
  "push_on_prototype k c r =
     r\<lparr>on_prototype :=
         modify k (array_push c)
           (ensure k \<lparr>array_props = [], array_length = 0\<rparr> (on_prototype r))\<rparr>"

text \<open>
  The test, the assignment and the \<open>push\<close> when \<open>obj[day]\<close> is \<open>Object.prototype\<close> (the
  day is \<open>__proto__\<close>), and the \<open>push\<close> when the time slot is inherited by the day's own
  object. A property of \<open>Object.prototype\<close> that the engine provides is no array: its
  \<open>push\<close> is no function, or it is \<open>null\<close> and cannot be assigned.
\<close>

definition through_prototype :: "string \<Rightarrow> TimetableClass \<Rightarrow> engine_objects \<Rightarrow> js_error + engine_objects" where
  "through_prototype timeSlot c r =
     (if timeSlot \<in> set Object_prototype_keys then Inl TypeError
      else Inr (push_on_prototype timeSlot c r))"

text \<open>
  The same when \<open>obj[day]\<close> is one of the functions of \<open>Object.prototype\<close>. A property
  that the function has from the engine, own or inherited, is no array and cannot be
  replaced by one; an array that the loop has stored before is pushed onto; otherwise
  the function gets a new array.
\<close>

definition through_function ::
  "string \<Rightarrow> string \<Rightarrow> TimetableClass \<Rightarrow> engine_objects \<Rightarrow> js_error + engine_objects" where
  "through_function k timeSlot c r =
     (let added = (case map_of (on_functions r) k of None \<Rightarrow> [] | Some ps \<Rightarrow> ps)
      in if timeSlot \<in> set (function_own_keys k) then Inl TypeError
         else if map_of added timeSlot \<noteq> None
         then Inr (r\<lparr>on_functions := modify k (modify timeSlot (\<lambda>cs. cs @ [c])) (on_functions r)\<rparr>)
         else if timeSlot \<in> set Function_prototype_keys \<or> timeSlot \<in> set Object_prototype_keys
         then Inl TypeError
         else if map_of (on_prototype r) timeSlot \<noteq> None
         then Inr (push_on_prototype timeSlot c r)
         else Inr (r\<lparr>on_functions :=
                      modify k (modify timeSlot (\<lambda>cs. cs @ [c]))
                        (modify k (ensure timeSlot []) (ensure k [] (on_functions r)))\<rparr>))"

text \<open>
  The same when \<open>obj[day]\<close> is an array that the loop has stored on \<open>Object.prototype\<close>.
  Its elements, its \<open>length\<close> and the methods it inherits are no arrays. Its
  \<open>__proto__\<close> reads as \<open>Array.prototype\<close>, which is an array and takes the \<open>push\<close>.
\<close>

definition add_inner :: "string \<Rightarrow> TimetableClass \<Rightarrow> proto_array \<Rightarrow> proto_array" where
  "add_inner k c a =
     a\<lparr>array_props := array_props a @ [(k, Inner [c])],
       array_length := (case array_index k of
                          Some i \<Rightarrow> max (array_length a) (Suc i)
                        | None \<Rightarrow> array_length a)\<rparr>"

definition push_inner :: "TimetableClass \<Rightarrow> array_prop \<Rightarrow> array_prop" where
  "push_inner c p = (case p of Inner cs \<Rightarrow> Inner (cs @ [c]) | Elem x \<Rightarrow> Elem x)"

definition through_array ::
  "string \<Rightarrow> string \<Rightarrow> TimetableClass \<Rightarrow> engine_objects \<Rightarrow> js_error + engine_objects" where
  "through_array day timeSlot c r =
     (case map_of (on_prototype r) day of
        None \<Rightarrow> Inr r
      | Some a \<Rightarrow>
          (case map_of (array_props a) timeSlot of
             Some (Elem x) \<Rightarrow> Inl TypeError
           | Some (Inner cs) \<Rightarrow>
               Inr (r\<lparr>on_prototype :=
                        modify day (\<lambda>a. a\<lparr>array_props := modify timeSlot (push_inner c) (array_props a)\<rparr>)
                          (on_prototype r)\<rparr>)
           | None \<Rightarrow>
               if timeSlot \<in> set (map decimal [0..<length (on_array_prototype r)])
                  \<or> timeSlot \<in> set Array_prototype_keys
               then Inl TypeError
               else if timeSlot = ''__proto__''
               then Inr (r\<lparr>on_array_prototype := on_array_prototype r @ [c]\<rparr>)
               else if timeSlot \<in> set Object_prototype_keys then Inl TypeError
               else if map_of (on_prototype r) timeSlot \<noteq> None
               then Inr (push_on_prototype timeSlot c r)
               else Inr (r\<lparr>on_prototype := modify day (add_inner timeSlot c) (on_prototype r)\<rparr>)))"

text \<open>Own properties of a section's schedule and of a day's object.\<close>

definition own_day :: "Schedule js_object \<Rightarrow> string \<Rightarrow> string \<Rightarrow> DaySchedule option" where
  "own_day sectionMap section day =
     (case map_of sectionMap section of None \<Rightarrow> None | Some sch \<Rightarrow> map_of sch day)"

definition own_slot :: "Schedule js_object \<Rightarrow> string \<Rightarrow> string \<Rightarrow> string \<Rightarrow> TimetableClass list option" where
  "own_slot sectionMap section day timeSlot =
     (case own_day sectionMap section day of None \<Rightarrow> None | Some ds \<Rightarrow> map_of ds timeSlot)"

text \<open>
  The body of the innermost \<open>forEach\<close>. The section is added to the map when missing.
  A day that is neither an own property nor inherited is created, and so is a time slot;
  the class is then pushed onto the section's own array.
\<close>

definition add_class ::
  "string \<Rightarrow> string \<Rightarrow> TimetableClass \<Rightarrow> Schedule js_object \<times> engine_objects
     \<Rightarrow> js_error + Schedule js_object \<times> engine_objects" where
  "add_class day timeSlot classInfo st =
     (let section = section_name classInfo;
          r = snd st;
          m1 = ensure section [] (fst st)
      in if own_day m1 section day \<noteq> None \<or> \<not> inherited r day
         then (let m2 = modify section (ensure day []) m1
               in if own_slot m2 section day timeSlot \<noteq> None \<or> \<not> inherited r timeSlot
                  then (let m3 = modify section (modify day (ensure timeSlot [])) m2
                        in Inr (modify section (modify day (modify timeSlot (\<lambda>cs. cs @ [classInfo]))) m3, r))
                  else (case through_prototype timeSlot classInfo r of
                          Inl e \<Rightarrow> Inl e
                        | Inr r' \<Rightarrow> Inr (m2, r')))
         else (case (if day = ''__proto__'' then through_prototype timeSlot classInfo r
                     else if day \<in> set Object_prototype_keys
                     then through_function day timeSlot classInfo r
                     else through_array day timeSlot classInfo r) of
                 Inl e \<Rightarrow> Inl e
               | Inr r' \<Rightarrow> Inr (m1, r')))"

text \<open>A \<open>forEach\<close> whose callback may throw: after a throw no further callback runs.\<close>

definition unless_thrown :: "('x \<Rightarrow> 'a \<Rightarrow> js_error + 'a) \<Rightarrow> js_error + 'a \<Rightarrow> 'x \<Rightarrow> js_error + 'a" where
  "unless_thrown f st x = (case st of Inl e \<Rightarrow> Inl e | Inr v \<Rightarrow> f x v)"

definition group_slot ::
  "string \<Rightarrow> string \<times> TimetableClass list \<Rightarrow> Schedule js_object \<times> engine_objects
     \<Rightarrow> js_error + Schedule js_object \<times> engine_objects" where
  "group_slot day e st = foldl (unless_thrown (add_class day (fst e))) (Inr st) (snd e)"

definition group_day ::
  "string \<times> DaySchedule \<Rightarrow> Schedule js_object \<times> engine_objects
     \<Rightarrow> js_error + Schedule js_object \<times> engine_objects" where
  "group_day e st = foldl (unless_thrown (group_slot (fst e))) (Inr st) (snd e)"

definition group_by_section :: "Schedule \<Rightarrow> js_error + Schedule js_object \<times> engine_objects" where
  "group_by_section schedule = foldl (unless_thrown group_day) (Inr ([], pristine)) schedule"

definition sectionData_of :: "Schedule js_object \<Rightarrow> SectionData list" where
  "sectionData_of sectionMap = map (\<lambda>e. \<lparr>sd_section = fst e, sd_schedule = snd e\<rparr>) sectionMap"

definition processSections :: "Schedule \<Rightarrow> app_state \<Rightarrow> js_error + app_state" where
  "processSections schedule s =
     (case group_by_section schedule of
        Inl e \<Rightarrow> Inl e
      | Inr st \<Rightarrow> Inr (s\<lparr>sections := sectionData_of (fst st)\<rparr>))"







definition all_classes :: "Schedule \<Rightarrow> TimetableClass list" where
  "all_classes sched = concat (map (\<lambda>e. concat (map snd (snd e))) sched)"

subsection \<open>fetchTimetable and handleSlotUpdate\<close>

text \<open>The outcome of \<open>api.get\<close>: the response data, or a rejected promise. A throw
  of \<open>processSections\<close> is caught like a failed request, after \<open>setTimetable\<close>.\<close>

datatype get_outcome = Get_ok TimetableData | Get_failed

definition fetchTimetable :: "get_outcome \<Rightarrow> app_state \<Rightarrow> app_state" where
  "fetchTimetable outcome s =
     (let s1 = s\<lparr>api_calls := api_calls s @ [Api_get (''/timetables/'' @ params_id s @ ''/view_schedule/'')]\<rparr>;
          s2 = (case outcome of
                  Get_ok d \<Rightarrow>
                    (case processSections (tt_schedule d) (s1\<lparr>timetable := Some d\<rparr>) of
                       Inr s' \<Rightarrow> s'
                     | Inl e \<Rightarrow>
                         s1\<lparr>timetable := Some d,
                            toasts := toasts s1 @ [Toast_error ''Failed to fetch timetable details'' None]\<rparr>)
                | Get_failed \<Rightarrow>
                    s1\<lparr>toasts := toasts s1 @ [Toast_error ''Failed to fetch timetable details'' None]\<rparr>)
      in s2\<lparr>loading := False\<rparr>)"

text \<open>
  What \<open>api.patch\<close> rejects with: \<open>error.response?.data\<close> and the three fields of the
  data that the handler reads. Of a conflict the handler reads \<open>type\<close> and \<open>course\<close>.
\<close>

record conflict =
  conflict_type :: string
  conflict_course :: string

record response_data =
  data_error :: "string option"
  data_detail :: "string option"
  data_conflicts :: "conflict list option"

record http_response =
  response_data :: "response_data option"

record api_error =
  response :: "http_response option"

datatype patch_outcome = Patch_ok | Patch_failed api_error

definition errorMessage :: "api_error \<Rightarrow> string" where
  "errorMessage e =
     (case response e of
        None \<Rightarrow> ''Failed to move class''
      | Some r \<Rightarrow>
          (case response_data r of
             None \<Rightarrow> ''Failed to move class''
           | Some d \<Rightarrow>
               if truthy (data_error d) then the (data_error d)
               else if truthy (data_detail d) then the (data_detail d)
               else (case data_conflicts d of
                       Some conflicts \<Rightarrow>
                         ''Conflict detected: '' @ js_join '', ''
                           (map (\<lambda>c. conflict_type c @ '' conflict for '' @ conflict_course c) conflicts)
                     | None \<Rightarrow> ''Failed to move class'')))"

text \<open>The result is \<open>Inl message\<close> when the handler throws \<open>new Error(message)\<close>.\<close>

definition handleSlotUpdate ::
  "patch_outcome \<Rightarrow> get_outcome \<Rightarrow> string \<Rightarrow> string \<Rightarrow> string \<Rightarrow> app_state
     \<Rightarrow> (string + unit) \<times> app_state" where
  "handleSlotUpdate patched fetched classId newDay newTime s =
     (let s1 = s\<lparr>api_calls := api_calls s @ [Api_patch ''/classes/update_slot/'' classId newDay newTime]\<rparr>
      in case patched of
           Patch_ok \<Rightarrow> (Inr (), fetchTimetable fetched s1)
         | Patch_failed e \<Rightarrow> (Inl (errorMessage e), s1))"

definition toggleEditMode :: "app_state \<Rightarrow> app_state" where
  "toggleEditMode s =
     s\<lparr>editMode := \<not> editMode s,
       toasts := toasts s @
         [if \<not> editMode s
          then Toast_success ''Edit mode enabled. Click on a class to select it, then click on an empty slot to move it.''
          else Toast_success ''Edit mode disabled.'']\<rparr>"


section \<open>The timetable grid component\<close>

record TimetableGridProps =
  schedule :: Schedule
  title :: "string option"

definition days :: "string list" where
  "days = [''Monday'', ''Tuesday'', ''Wednesday'', ''Thursday'', ''Friday'']"

definition LUNCH_START_PREFIX :: string where
  "LUNCH_START_PREFIX = ''13:00''"

definition isLunchSlot :: "string \<Rightarrow> bool" where
  "isLunchSlot slot = startsWith slot LUNCH_START_PREFIX"

subsection \<open>The effect: time slots and course legend\<close>

text \<open>\<open>a.split('-')[0]\<close>; the split has a first piece always.\<close>

definition slot_start :: "string \<Rightarrow> string" where
  "slot_start a = (case js_split CHR ''-'' a of p # ps \<Rightarrow> p | [] \<Rightarrow> [])"

definition collect_day :: "string list \<Rightarrow> string \<times> DaySchedule \<Rightarrow> string list" where
  "collect_day allTimeSlots e =
     (if fst e \<notin> set days then allTimeSlots
      else foldl (\<lambda>acc timeSlot. set_add timeSlot acc) allTimeSlots (map fst (snd e)))"

definition allTimeSlots :: "Schedule \<Rightarrow> string list" where
  "allTimeSlots sched = foldl collect_day [] sched"

definition timeSlots_of :: "(string \<Rightarrow> string \<Rightarrow> int) \<Rightarrow> Schedule \<Rightarrow> string list" where
  "timeSlots_of localeCompare sched =
     (let slots = allTimeSlots sched;
          hasLunch = list_ex (\<lambda>slot. startsWith slot LUNCH_START_PREFIX) slots;
          slots' = (if \<not> hasLunch then slots @ [''13:00:00-13:45:00''] else slots)
      in js_sort (\<lambda>a b. localeCompare (slot_start a) (slot_start b)) slots')"

text \<open>
  The comparison function orders the start times of the given slots as the
  lexicographic order on character codes does.
\<close>

definition code_unit_order_on :: "(string \<Rightarrow> string \<Rightarrow> int) \<Rightarrow> string list \<Rightarrow> bool" where
  "code_unit_order_on localeCompare slots =
     list_all (\<lambda>a. list_all (\<lambda>b.
        (localeCompare (slot_start a) (slot_start b) \<le> 0) = (slot_start a \<le> slot_start b)) slots) slots"

text \<open>A start time of the fixed-width form \<open>HH:MM:SS\<close>.\<close>

definition hh_mm_ss :: "string \<Rightarrow> bool" where
  "hh_mm_ss s =
     list_all2 (\<lambda>colon c. if colon then c = CHR '':'' else CHR ''0'' \<le> c \<and> c \<le> CHR ''9'')
       [False, False, True, False, False, True, False, False] s"

record legend_item =
  legend_course_id :: string
  legend_course :: string
  instructors :: "string list"

text \<open>\<open>cls.course_id || cls.course\<close>: the empty string is falsy.\<close>

definition course_key :: "TimetableClass \<Rightarrow> string" where
  "course_key cls = (if course_id cls \<noteq> [] then course_id cls else course cls)"

definition add_legend :: "legend_item js_object \<Rightarrow> TimetableClass \<Rightarrow> legend_item js_object" where
  "add_legend legendMap cls =
     (let key = course_key cls
      in if map_of legendMap key = None
         then legendMap @
           [(key, \<lparr>legend_course_id = course_id cls, legend_course = course cls,
                   instructors = [instructor cls]\<rparr>)]
         else modify key (\<lambda>item. item\<lparr>instructors := set_add (instructor cls) (instructors item)\<rparr>)
                legendMap)"

text \<open>The React key of a legend entry, \<open>item.course_id || item.course\<close>.\<close>

definition legend_key :: "legend_item \<Rightarrow> string" where
  "legend_key item = (if legend_course_id item \<noteq> [] then legend_course_id item else legend_course item)"

text \<open>The classes of the Monday to Friday entries, in the order in which the effect visits
  them.\<close>

definition weekday_classes :: "Schedule \<Rightarrow> TimetableClass list" where
  "weekday_classes sched =
     concat (map (\<lambda>e. concat (map snd (snd e))) (filter (\<lambda>e. fst e \<in> set days) sched))"

text \<open>
  What holds of the legend map once the classes \<open>cs\<close> have been added: every course key
  of \<open>cs\<close> has one entry, filed under the key its own fields give, and the entry's
  instructors are those of the classes with that key, each once.
\<close>

definition legend_inv :: "legend_item js_object \<Rightarrow> TimetableClass list \<Rightarrow> bool" where
  "legend_inv m cs =
     (distinct (map fst m)
      \<and> set (map fst m) = course_key ` set cs
      \<and> (\<forall>e\<in>set m. legend_key (snd e) = fst e
            \<and> distinct (instructors (snd e))
            \<and> set (instructors (snd e)) = {instructor c |c. c \<in> set cs \<and> course_key c = fst e}))"

definition legend_day :: "legend_item js_object \<Rightarrow> string \<times> DaySchedule \<Rightarrow> legend_item js_object" where
  "legend_day legendMap e =
     (if fst e \<notin> set days then legendMap
      else foldl (\<lambda>m classesAtSlot. foldl add_legend m classesAtSlot) legendMap (map snd (snd e)))"

definition legendMap_of :: "Schedule \<Rightarrow> legend_item js_object" where
  "legendMap_of sched = foldl legend_day [] sched"

definition courseLegend_of :: "Schedule \<Rightarrow> legend_item list" where
  "courseLegend_of sched = map snd (legendMap_of sched)"

text \<open>
  The two \<open>useState\<close> cells of the grid. They start empty and are written by the effect
  only, which runs after every change of the \<open>schedule\<close> prop.
\<close>

record grid_state =
  timeSlots :: "string list"
  courseLegend :: "legend_item list"

definition TimetableGrid_effect :: "(string \<Rightarrow> string \<Rightarrow> int) \<Rightarrow> TimetableGridProps \<Rightarrow> grid_state" where
  "TimetableGrid_effect localeCompare props =
     \<lparr>timeSlots = timeSlots_of localeCompare (schedule props),
      courseLegend = courseLegend_of (schedule props)\<rparr>"

subsection \<open>Rendering\<close>

text \<open>\<open>const [start, end] = slot.split('-')\<close>: without a second piece \<open>end\<close> is
  \<open>undefined\<close> and \<open>end.slice\<close> throws.\<close>

definition formatTimeSlotLabel :: "string \<Rightarrow> js_error + string" where
  "formatTimeSlotLabel slot =
     (case js_split CHR ''-'' slot of
        start # end' # rest \<Rightarrow> Inr (take 5 start @ '' - '' @ take 5 end')
      | _ \<Rightarrow> Inl TypeError)"

datatype cell = Lunch_break | Classes "TimetableClass list"

record row =
  row_slot :: string
  row_label :: string
  row_lunch :: bool
  row_cells :: "cell js_object"

definition render_cell :: "Schedule \<Rightarrow> string \<Rightarrow> bool \<Rightarrow> string \<Rightarrow> string \<times> cell" where
  "render_cell sched timeSlot lunch day =
     (let dayClasses = cell_at sched day timeSlot
      in (day, if lunch then Lunch_break else Classes dayClasses))"

definition render_row :: "Schedule \<Rightarrow> string \<Rightarrow> js_error + row" where
  "render_row sched timeSlot =
     (let lunch = isLunchSlot timeSlot
      in case formatTimeSlotLabel timeSlot of
           Inl e \<Rightarrow> Inl e
         | Inr label \<Rightarrow>
             Inr \<lparr>row_slot = timeSlot, row_label = label, row_lunch = lunch,
                  row_cells = map (render_cell sched timeSlot lunch) days\<rparr>)"

fun render_rows :: "Schedule \<Rightarrow> string list \<Rightarrow> js_error + row list" where
  "render_rows sched [] = Inr []"
| "render_rows sched (timeSlot # rest) =
     (case render_row sched timeSlot of
        Inl e \<Rightarrow> Inl e
      | Inr r \<Rightarrow> (case render_rows sched rest of Inl e \<Rightarrow> Inl e | Inr rs \<Rightarrow> Inr (r # rs)))"

record grid_view =
  view_title :: "string option"
  view_rows :: "row list"
  view_no_classes :: bool
  view_legend :: "legend_item list"

definition TimetableGrid_render :: "TimetableGridProps \<Rightarrow> grid_state \<Rightarrow> js_error + grid_view" where
  "TimetableGrid_render props st =
     (case render_rows (schedule props) (timeSlots st) of
        Inl e \<Rightarrow> Inl e
      | Inr rows \<Rightarrow>
          Inr \<lparr>view_title = title props, view_rows = rows,
               view_no_classes = (length (timeSlots st) = 0),
               view_legend = courseLegend st\<rparr>)"

text \<open>The grid as it stands once its effect has run for the current props.\<close>

definition TimetableGrid :: "(string \<Rightarrow> string \<Rightarrow> int) \<Rightarrow> TimetableGridProps \<Rightarrow> js_error + grid_view" where
  "TimetableGrid localeCompare props =
     TimetableGrid_render props (TimetableGrid_effect localeCompare props)"

subsection \<open>Drag handlers\<close>

text \<open>
  A drag event: the payload stored under \<open>text/plain\<close> (the dragged class, which the
  source stores as JSON), whether the default action was prevented, and the day and
  time slot of the table cell the event is delivered to.
\<close>

record drag_event =
  dataTransfer :: "TimetableClass option"
  defaultPrevented :: bool
  drop_day :: string
  drop_slot :: string

definition handleDragStart :: "drag_event \<Rightarrow> TimetableClass \<Rightarrow> drag_event" where
  "handleDragStart event cls = event\<lparr>dataTransfer := Some cls\<rparr>"

definition handleDragOver :: "drag_event \<Rightarrow> drag_event" where
  "handleDragOver event = event\<lparr>defaultPrevented := True\<rparr>"

definition handleDrop :: "drag_event \<Rightarrow> app_state \<Rightarrow> drag_event \<times> app_state" where
  "handleDrop event s =
     (event\<lparr>defaultPrevented := True\<rparr>,
      s\<lparr>toasts := toasts s @
        [Toast_error ''Timetable is fixed by the genetic algorithm. Manual changes are not allowed.''
           (Some 4000)]\<rparr>)"

subsection \<open>The page's view\<close>

text \<open>
  The page renders one grid per section. It also passes \<open>editMode\<close> and \<open>onSlotUpdate\<close>,
  which are not among the props the grid declares and reads.
\<close>

datatype page_view =
  Loading_view
| Not_found_view
| Grids_view bool "(js_error + grid_view) list"

definition grid_props :: "SectionData \<Rightarrow> TimetableGridProps" where
  "grid_props sectionData =
     \<lparr>schedule = sd_schedule sectionData, title = Some (''Timetable for '' @ sd_section sectionData)\<rparr>"

definition TimetableDetailPage :: "(string \<Rightarrow> string \<Rightarrow> int) \<Rightarrow> app_state \<Rightarrow> page_view" where
  "TimetableDetailPage localeCompare s =
     (if loading s then Loading_view
      else if timetable s = None then Not_found_view
      else Grids_view (editMode s) (map (\<lambda>sectionData. TimetableGrid localeCompare (grid_props sectionData)) (sections s)))"


section \<open>The population engine\<close>

text \<open>
  Modelled from the spec: the population engine and the ranking of fitness reports. The
  genetic algorithm (\<open>genetic_algorithm.py\<close> of the backend) is not among the sources, so
  the definitions of this section follow sections 3, 4.1 and 4.2 of the specification.

  A fitness report holds the number of hard violations and the soft penalty; the
  percentage shown to the user is derived from them and plays no part in the ranking.
  Fewer hard violations always rank better, and the soft penalty breaks ties.
\<close>

record FitnessReport =
  hard_violations :: nat
  soft_penalty :: nat

definition fitness_ge :: "FitnessReport \<Rightarrow> FitnessReport \<Rightarrow> bool" where
  "fitness_ge a b =
     (hard_violations a < hard_violations b
      \<or> (hard_violations a = hard_violations b \<and> soft_penalty a \<le> soft_penalty b))"

text \<open>The current generation in rank order, best first, and its top \<open>E\<close> candidates.\<close>

fun insert_ranked :: "('c \<Rightarrow> FitnessReport) \<Rightarrow> 'c \<Rightarrow> 'c list \<Rightarrow> 'c list" where
  "insert_ranked evaluate c [] = [c]"
| "insert_ranked evaluate c (d # ds) =
     (if fitness_ge (evaluate c) (evaluate d) then c # d # ds
      else d # insert_ranked evaluate c ds)"

definition ranked :: "('c \<Rightarrow> FitnessReport) \<Rightarrow> 'c list \<Rightarrow> 'c list" where
  "ranked evaluate population = foldr (insert_ranked evaluate) population []"

definition elites :: "('c \<Rightarrow> FitnessReport) \<Rightarrow> nat \<Rightarrow> 'c list \<Rightarrow> 'c list" where
  "elites evaluate E population = take E (ranked evaluate population)"

text \<open>
  Elitism: the elites are copied unchanged into the next generation. The rest of the next
  generation comes out of selection, crossover and mutation, which are random; whatever
  they produce is the parameter \<open>offspring\<close>.
\<close>

definition next_generation :: "('c \<Rightarrow> FitnessReport) \<Rightarrow> nat \<Rightarrow> 'c list \<Rightarrow> 'c list \<Rightarrow> 'c list" where
  "next_generation evaluate E population offspring = elites evaluate E population @ offspring"

fun population_at ::
  "('c \<Rightarrow> FitnessReport) \<Rightarrow> nat \<Rightarrow> 'c list \<Rightarrow> (nat \<Rightarrow> 'c list) \<Rightarrow> nat \<Rightarrow> 'c list" where
  "population_at evaluate E initial offspring 0 = initial"
| "population_at evaluate E initial offspring (Suc g) =
     next_generation evaluate E (population_at evaluate E initial offspring g) (offspring g)"

definition fitter :: "FitnessReport \<Rightarrow> FitnessReport \<Rightarrow> FitnessReport" where
  "fitter a b = (if fitness_ge a b then a else b)"

text \<open>The best fitness of a generation; an empty population has none.\<close>

fun best_fitness :: "('c \<Rightarrow> FitnessReport) \<Rightarrow> 'c list \<Rightarrow> FitnessReport option" where
  "best_fitness evaluate [] = None"
| "best_fitness evaluate (c # cs) =
     Some (foldl (\<lambda>best d. fitter best (evaluate d)) (evaluate c) cs)"


section \<open>Example inputs\<close>

definition example_class :: TimetableClass where
  "example_class =
     \<lparr>class_id = ''17'', course = ''Databases'', course_id = ''CS301'', instructor = ''Rao'',
      room = ''R1'', section_name = ''A'', course_type = ''Theory''\<rparr>"

definition example_schedule :: Schedule where
  "example_schedule = [(''Monday'', [(''09:00:00-10:00:00'', [example_class])])]"

definition example_state :: app_state where
  "example_state =
     \<lparr>params_id = ''7'',
      timetable = Some \<lparr>timetable_name = ''Autumn'', fitness = 90, tt_schedule = example_schedule\<rparr>,
      sections = [\<lparr>sd_section = ''A'', sd_schedule = example_schedule\<rparr>],
      loading = False, editMode = True, toasts = [], api_calls = []\<rparr>"

definition example_drop :: drag_event where
  "example_drop =
     \<lparr>dataTransfer = Some example_class, defaultPrevented = False,
      drop_day = ''Tuesday'', drop_slot = ''09:00:00-10:00:00''\<rparr>"

definition example_error :: api_error where
  "example_error =
     \<lparr>response = Some \<lparr>response_data = Some
        \<lparr>data_error = None, data_detail = None,
         data_conflicts = Some [\<lparr>conflict_type = ''instructor'', conflict_course = ''CS301''\<rparr>,
                                \<lparr>conflict_type = ''room'', conflict_course = ''MA201''\<rparr>]\<rparr>\<rparr>\<rparr>"

definition example_week :: Schedule where
  "example_week =
     [(''Monday'',
         [(''10:00:00-11:00:00'',
             [\<lparr>class_id = ''1'', course = ''Databases'', course_id = ''CS301'', instructor = ''Rao'',
               room = ''R1'', section_name = ''A'', course_type = ''Theory''\<rparr>,
              \<lparr>class_id = ''2'', course = ''Databases'', course_id = ''CS301'', instructor = ''Iyer'',
               room = ''R2'', section_name = ''B'', course_type = ''Theory''\<rparr>]),
          (''09:00:00-10:00:00'',
             [\<lparr>class_id = ''3'', course = ''Seminar'', course_id = '''', instructor = ''Rao'',
               room = ''R1'', section_name = ''B'', course_type = ''Practical''\<rparr>])]),
      (''Saturday'',
         [(''08:00:00-09:00:00'',
             [\<lparr>class_id = ''4'', course = ''Algebra'', course_id = ''MA201'', instructor = ''Das'',
               room = ''R3'', section_name = ''A'', course_type = ''Theory''\<rparr>])]),
      (''Tuesday'',
         [(''13:00:00-14:00:00'',
             [\<lparr>class_id = ''5'', course = ''Database Lab'', course_id = ''CS301'', instructor = ''Rao'',
               room = ''R1'', section_name = ''A'', course_type = ''Lab''\<rparr>])])]"

definition example_props :: TimetableGridProps where
  "example_props = \<lparr>schedule = example_week, title = None\<rparr>"



definition example_unpadded :: Schedule where
  "example_unpadded =
     [(''Monday'',
         [(''10:00:00-11:00:00'', [example_class]), (''1:00:00-2:00:00'', []),
          (''9:00:00-10:00:00'', [])])]"

definition example_saturday :: Schedule where
  "example_saturday =
     [(''Monday'', [(''09:00:00-10:00:00'', [example_class])]),
      (''Saturday'', [(''09:00:00-10:00:00'', [example_class\<lparr>class_id := ''18'', instructor := ''Das''\<rparr>])])]"

definition example_evaluate :: "nat \<Rightarrow> FitnessReport" where
  "example_evaluate n = \<lparr>hard_violations = n, soft_penalty = 0\<rparr>"


section \<open>Dropping a class on the grid\<close>

lemma handleSlotUpdate_sends_request:
  "api_calls (snd (handleSlotUpdate patched fetched classId newDay newTime s)) \<noteq> api_calls s"
  by (cases patched; cases fetched)
     (simp_all add: handleSlotUpdate_def fetchTimetable_def processSections_def Let_def
        split: sum.splits)

text \<open>
  Claim C1, as amended. When edit mode is enabled and a class is dropped onto a cell of
  the grid, the grid does not apply the move. The state of the page after the drop is
  the state before it with the error toast added and nothing else changed, so the page
  renders the same view; no slot-update request is sent, and since every run of the
  page's \<open>handleSlotUpdate\<close> sends one, the callback has not run.
\<close>

theorem drop_in_edit_mode_not_applied:
  assumes "editMode s"
  shows "snd (handleDrop event s) =
      s\<lparr>toasts := toasts s @
         [Toast_error ''Timetable is fixed by the genetic algorithm. Manual changes are not allowed.''
            (Some 4000)]\<rparr>
    \<and> TimetableDetailPage localeCompare (snd (handleDrop event s)) = TimetableDetailPage localeCompare s
    \<and> api_calls (snd (handleDrop event s)) = api_calls s
    \<and> sections (snd (handleDrop event s)) = sections s
    \<and> timetable (snd (handleDrop event s)) = timetable s
    \<and> editMode (snd (handleDrop event s))
    \<and> (\<forall>patched fetched classId newDay newTime.
          api_calls (snd (handleSlotUpdate patched fetched classId newDay newTime s))
            \<noteq> api_calls (snd (handleDrop event s)))"
  using assms
  by (simp add: handleDrop_def TimetableDetailPage_def handleSlotUpdate_sends_request)

theorem drop_in_edit_mode_not_applied_witness:
  "editMode example_state
    \<and> snd (handleDrop example_drop example_state) =
        example_state\<lparr>toasts :=
          [Toast_error ''Timetable is fixed by the genetic algorithm. Manual changes are not allowed.''
             (Some 4000)]\<rparr>
    \<and> api_calls (snd (handleDrop example_drop example_state)) = []
    \<and> sections (snd (handleDrop example_drop example_state)) =
        [\<lparr>sd_section = ''A'', sd_schedule = example_schedule\<rparr>]
    \<and> TimetableDetailPage collationCompare (snd (handleDrop example_drop example_state))
        = TimetableDetailPage collationCompare example_state"
  using drop_in_edit_mode_not_applied [of example_state example_drop collationCompare]
  by (simp add: example_state_def handleDrop_def TimetableDetailPage_def)

text \<open>
  Claim C1 as stated fails. In the example edit mode is on and the page shows the grid of
  section A with the rows 09:00 and lunch. The class of section A that sits on Monday
  09:00 is dropped on the cell of Tuesday 09:00, which the grid renders empty and which
  is empty in every section, so free of conflicts. After the drop no request has been
  sent, the class is still on Monday 09:00, the Tuesday cell is still empty, and the
  state of the page is not one that a run of \<open>handleSlotUpdate\<close> for this move leaves
  behind.
\<close>

theorem drop_in_edit_mode_counterexample:
  "editMode example_state
    \<and> dataTransfer example_drop = Some example_class
    \<and> drop_day example_drop = ''Tuesday'' \<and> drop_slot example_drop = ''09:00:00-10:00:00''
    \<and> (\<exists>view. TimetableDetailPage collationCompare example_state = Grids_view True [Inr view]
          \<and> map row_slot (view_rows view) = [''09:00:00-10:00:00'', ''13:00:00-13:45:00'']
          \<and> map (\<lambda>r. map_of (row_cells r) ''Tuesday'') (view_rows view)
               = [Some (Classes []), Some Lunch_break])
    \<and> map (\<lambda>sd. cell_at (sd_schedule sd) ''Tuesday'' ''09:00:00-10:00:00'') (sections example_state) = [[]]
    \<and> api_calls (snd (handleDrop example_drop example_state)) = []
    \<and> map (\<lambda>sd. cell_at (sd_schedule sd) ''Monday'' ''09:00:00-10:00:00'')
         (sections (snd (handleDrop example_drop example_state))) = [[example_class]]
    \<and> map (\<lambda>sd. cell_at (sd_schedule sd) ''Tuesday'' ''09:00:00-10:00:00'')
         (sections (snd (handleDrop example_drop example_state))) = [[]]
    \<and> (\<forall>patched fetched.
          snd (handleDrop example_drop example_state)
            \<noteq> snd (handleSlotUpdate patched fetched ''17'' ''Tuesday'' ''09:00:00-10:00:00''
                    example_state))"
proof -
  have "api_calls (snd (handleDrop example_drop example_state)) = api_calls example_state"
    by (simp add: handleDrop_def)
  then have never: "\<forall>patched fetched.
      snd (handleDrop example_drop example_state)
        \<noteq> snd (handleSlotUpdate patched fetched ''17'' ''Tuesday'' ''09:00:00-10:00:00'' example_state)"
    using handleSlotUpdate_sends_request [of _ _ "''17''" "''Tuesday''" "''09:00:00-10:00:00''" example_state]
    by metis
  have shown: "\<exists>view. TimetableDetailPage collationCompare example_state = Grids_view True [Inr view]
          \<and> map row_slot (view_rows view) = [''09:00:00-10:00:00'', ''13:00:00-13:45:00'']
          \<and> map (\<lambda>r. map_of (row_cells r) ''Tuesday'') (view_rows view)
               = [Some (Classes []), Some Lunch_break]"
    by (simp add: TimetableDetailPage_def grid_props_def TimetableGrid_def TimetableGrid_effect_def
        TimetableGrid_render_def timeSlots_of_def allTimeSlots_def collect_day_def days_def
        set_add_def startsWith_def LUNCH_START_PREFIX_def js_sort_def slot_start_def
        collation_weight_def render_row_def render_cell_def cell_at_def formatTimeSlotLabel_def
        isLunchSlot_def courseLegend_of_def legendMap_of_def legend_day_def add_legend_def
        course_key_def example_state_def example_schedule_def Let_def)
  have rest: "editMode example_state
    \<and> dataTransfer example_drop = Some example_class
    \<and> drop_day example_drop = ''Tuesday'' \<and> drop_slot example_drop = ''09:00:00-10:00:00''
    \<and> map (\<lambda>sd. cell_at (sd_schedule sd) ''Tuesday'' ''09:00:00-10:00:00'') (sections example_state) = [[]]
    \<and> api_calls (snd (handleDrop example_drop example_state)) = []
    \<and> map (\<lambda>sd. cell_at (sd_schedule sd) ''Monday'' ''09:00:00-10:00:00'')
         (sections (snd (handleDrop example_drop example_state))) = [[example_class]]
    \<and> map (\<lambda>sd. cell_at (sd_schedule sd) ''Tuesday'' ''09:00:00-10:00:00'')
         (sections (snd (handleDrop example_drop example_state))) = [[]]"
    by (simp add: handleDrop_def example_state_def example_drop_def example_schedule_def cell_at_def)
  from never shown rest show ?thesis by blast
qed

text \<open>
  Claim C2. For every drop event and every state of the page, with edit mode on or off,
  the drop handler changes no state and sends no request: the state after the drop is the
  state before it with one error toast added, and the page renders the same view after
  the drop as before it.
\<close>

theorem handleDrop_changes_nothing:
  "snd (handleDrop event s) =
     s\<lparr>toasts := toasts s @
        [Toast_error ''Timetable is fixed by the genetic algorithm. Manual changes are not allowed.''
           (Some 4000)]\<rparr>
   \<and> params_id (snd (handleDrop event s)) = params_id s
   \<and> timetable (snd (handleDrop event s)) = timetable s
   \<and> sections (snd (handleDrop event s)) = sections s
   \<and> loading (snd (handleDrop event s)) = loading s
   \<and> editMode (snd (handleDrop event s)) = editMode s
   \<and> api_calls (snd (handleDrop event s)) = api_calls s
   \<and> TimetableDetailPage localeCompare (snd (handleDrop event s)) = TimetableDetailPage localeCompare s"
  by (simp add: handleDrop_def TimetableDetailPage_def)

theorem handleDrop_changes_nothing_witness:
  "api_calls (snd (handleDrop example_drop (toggleEditMode example_state))) = []
   \<and> \<not> editMode (snd (handleDrop example_drop (toggleEditMode example_state)))
   \<and> sections (snd (handleDrop example_drop (toggleEditMode example_state))) =
       [\<lparr>sd_section = ''A'', sd_schedule = example_schedule\<rparr>]
   \<and> TimetableDetailPage codeUnitCompare (snd (handleDrop example_drop (toggleEditMode example_state)))
       = TimetableDetailPage codeUnitCompare (toggleEditMode example_state)"
  using handleDrop_changes_nothing [of example_drop "toggleEditMode example_state" codeUnitCompare]
  by (simp add: example_state_def toggleEditMode_def handleDrop_def TimetableDetailPage_def)


section \<open>Moving a class through the update endpoint\<close>

text \<open>
  Claim C3. When the \<open>update_slot\<close> request fails, whatever the error,
  \<open>handleSlotUpdate\<close> throws the error message and leaves the page's timetable and
  sections as they were: the only request sent is the failed one, so \<open>fetchTimetable\<close> has
  not run, and the page renders the same view. On success the request is followed by the
  fetch of the timetable.
\<close>

theorem handleSlotUpdate_failure_keeps_schedule:
  "fst (handleSlotUpdate (Patch_failed e) fetched classId newDay newTime s) = Inl (errorMessage e)
   \<and> snd (handleSlotUpdate (Patch_failed e) fetched classId newDay newTime s) =
       s\<lparr>api_calls := api_calls s @ [Api_patch ''/classes/update_slot/'' classId newDay newTime]\<rparr>
   \<and> timetable (snd (handleSlotUpdate (Patch_failed e) fetched classId newDay newTime s)) = timetable s
   \<and> sections (snd (handleSlotUpdate (Patch_failed e) fetched classId newDay newTime s)) = sections s
   \<and> loading (snd (handleSlotUpdate (Patch_failed e) fetched classId newDay newTime s)) = loading s
   \<and> TimetableDetailPage localeCompare (snd (handleSlotUpdate (Patch_failed e) fetched classId newDay newTime s))
       = TimetableDetailPage localeCompare s
   \<and> api_calls (snd (handleSlotUpdate Patch_ok fetched classId newDay newTime s)) =
       api_calls s @ [Api_patch ''/classes/update_slot/'' classId newDay newTime,
                      Api_get (''/timetables/'' @ params_id s @ ''/view_schedule/'')]"
  by (cases fetched)
     (simp_all add: handleSlotUpdate_def fetchTimetable_def TimetableDetailPage_def
        processSections_def Let_def split: sum.splits)

theorem handleSlotUpdate_failure_keeps_schedule_witness:
  "fst (handleSlotUpdate (Patch_failed example_error) Get_failed ''17'' ''Tuesday'' ''10:00:00-11:00:00''
          example_state)
     = Inl ''Conflict detected: instructor conflict for CS301, room conflict for MA201''
   \<and> sections (snd (handleSlotUpdate (Patch_failed example_error) Get_failed ''17'' ''Tuesday''
          ''10:00:00-11:00:00'' example_state))
     = [\<lparr>sd_section = ''A'', sd_schedule = example_schedule\<rparr>]
   \<and> api_calls (snd (handleSlotUpdate (Patch_failed example_error) Get_failed ''17'' ''Tuesday''
          ''10:00:00-11:00:00'' example_state))
     = [Api_patch ''/classes/update_slot/'' ''17'' ''Tuesday'' ''10:00:00-11:00:00'']"
  using handleSlotUpdate_failure_keeps_schedule
    [of example_error Get_failed "''17''" "''Tuesday''" "''10:00:00-11:00:00''" example_state codeUnitCompare]
  by (simp add: example_state_def example_error_def errorMessage_def handleSlotUpdate_def)

text \<open>
  Claim C5. When the failed response carries a conflicts list and no usable \<open>error\<close> or
  \<open>detail\<close> field (absent, or empty), \<open>handleSlotUpdate\<close> throws an error whose message
  is \<open>Conflict detected: \<close> followed by \<open><type> conflict for <course>\<close> for each conflict
  in order, joined by a comma and a space.
\<close>

theorem handleSlotUpdate_conflict_message:
  assumes "response e = Some r" and "response_data r = Some d"
    and "\<not> truthy (data_error d)" and "\<not> truthy (data_detail d)"
    and "data_conflicts d = Some cs"
  shows "fst (handleSlotUpdate (Patch_failed e) fetched classId newDay newTime s) =
     Inl (''Conflict detected: '' @
          js_join '', '' (map (\<lambda>c. conflict_type c @ '' conflict for '' @ conflict_course c) cs))"
  using assms by (simp add: handleSlotUpdate_def errorMessage_def)

theorem handleSlotUpdate_conflict_message_witness:
  "fst (handleSlotUpdate (Patch_failed example_error) Get_failed ''17'' ''Tuesday''
          ''10:00:00-11:00:00'' example_state)
     = Inl ''Conflict detected: instructor conflict for CS301, room conflict for MA201''"
  using handleSlotUpdate_conflict_message
    [of example_error
        "\<lparr>response_data = Some
            \<lparr>data_error = None, data_detail = None,
             data_conflicts = Some [\<lparr>conflict_type = ''instructor'', conflict_course = ''CS301''\<rparr>,
                                    \<lparr>conflict_type = ''room'', conflict_course = ''MA201''\<rparr>]\<rparr>\<rparr>"
        "\<lparr>data_error = None, data_detail = None,
          data_conflicts = Some [\<lparr>conflict_type = ''instructor'', conflict_course = ''CS301''\<rparr>,
                                 \<lparr>conflict_type = ''room'', conflict_course = ''MA201''\<rparr>]\<rparr>"
        "[\<lparr>conflict_type = ''instructor'', conflict_course = ''CS301''\<rparr>,
          \<lparr>conflict_type = ''room'', conflict_course = ''MA201''\<rparr>]"
        Get_failed "''17''" "''Tuesday''" "''10:00:00-11:00:00''" example_state]
  by (simp add: example_error_def handleSlotUpdate_def errorMessage_def)


section \<open>Elitism in the population engine\<close>

lemma fitness_ge_refl: "fitness_ge a a"
  by (simp add: fitness_ge_def)

lemma fitness_ge_trans: "fitness_ge a b \<Longrightarrow> fitness_ge b c \<Longrightarrow> fitness_ge a c"
  by (auto simp: fitness_ge_def)

lemma fitness_ge_total: "fitness_ge a b \<or> fitness_ge b a"
  by (auto simp: fitness_ge_def)

lemma set_insert_ranked: "set (insert_ranked ev c ds) = insert c (set ds)"
  by (induction ds) auto

lemma set_ranked: "set (ranked ev pop) = set pop"
  by (induction pop) (auto simp: ranked_def set_insert_ranked)

lemma sorted_insert_ranked:
  "sorted_wrt (\<lambda>a b. fitness_ge (ev a) (ev b)) ds \<Longrightarrow>
   sorted_wrt (\<lambda>a b. fitness_ge (ev a) (ev b)) (insert_ranked ev c ds)"
proof (induction ds)
  case Nil
  then show ?case by simp
next
  case (Cons d ds)
  show ?case
  proof (cases "fitness_ge (ev c) (ev d)")
    case True
    with Cons.prems show ?thesis by (auto intro: fitness_ge_trans)
  next
    case False
    then have "fitness_ge (ev d) (ev c)" using fitness_ge_total by blast
    with False Cons show ?thesis by (auto simp: set_insert_ranked)
  qed
qed

lemma sorted_ranked: "sorted_wrt (\<lambda>a b. fitness_ge (ev a) (ev b)) (ranked ev pop)"
  by (induction pop) (simp_all add: ranked_def sorted_insert_ranked)

lemma foldl_fitter_ge_init:
  "fitness_ge (foldl (\<lambda>best d. fitter best (ev d)) a cs) a"
proof (induction cs arbitrary: a)
  case Nil
  show ?case by (simp add: fitness_ge_refl)
next
  case (Cons c cs)
  have "fitness_ge (fitter a (ev c)) a"
    using fitness_ge_total by (auto simp: fitter_def fitness_ge_refl)
  with Cons[of "fitter a (ev c)"] show ?case by (auto intro: fitness_ge_trans)
qed

lemma foldl_fitter_ge_member:
  "d \<in> set cs \<Longrightarrow> fitness_ge (foldl (\<lambda>best d. fitter best (ev d)) a cs) (ev d)"
proof (induction cs arbitrary: a)
  case Nil
  then show ?case by simp
next
  case (Cons c cs)
  show ?case
  proof (cases "d = c")
    case True
    have "fitness_ge (fitter a (ev c)) (ev c)"
      by (auto simp: fitter_def fitness_ge_refl)
    with foldl_fitter_ge_init[of ev "fitter a (ev c)" cs] True show ?thesis
      by (auto intro: fitness_ge_trans)
  next
    case False
    with Cons show ?thesis by auto
  qed
qed

lemma foldl_fitter_is_member:
  "foldl (\<lambda>best d. fitter best (ev d)) a cs = a \<or> foldl (\<lambda>best d. fitter best (ev d)) a cs \<in> ev ` set cs"
proof (induction cs arbitrary: a)
  case Nil
  show ?case by simp
next
  case (Cons c cs)
  have step: "fitter a (ev c) = a \<or> fitter a (ev c) = ev c"
    by (simp add: fitter_def)
  from Cons[of "fitter a (ev c)"] step show ?case by auto
qed

lemma best_fitness_ge_member:
  "d \<in> set pop \<Longrightarrow> \<exists>f. best_fitness ev pop = Some f \<and> fitness_ge f (ev d)"
  by (cases pop) (auto simp: foldl_fitter_ge_init foldl_fitter_ge_member)

lemma best_fitness_is_member:
  assumes "best_fitness ev pop = Some f"
  shows "f \<in> ev ` set pop"
proof (cases pop)
  case Nil
  with assms show ?thesis by simp
next
  case (Cons c cs)
  with assms have "f = foldl (\<lambda>best d. fitter best (ev d)) (ev c) cs" by simp
  with foldl_fitter_is_member[of ev "ev c" cs] Cons show ?thesis by auto
qed

lemma hd_ranked_best:
  assumes "pop \<noteq> []" "d \<in> set pop"
  shows "fitness_ge (ev (hd (ranked ev pop))) (ev d)"
proof -
  from assms have ne: "ranked ev pop \<noteq> []" using set_ranked[of ev pop] by auto
  then obtain r rs where r: "ranked ev pop = r # rs" by (cases "ranked ev pop") auto
  have "d \<in> set (r # rs)" using assms r set_ranked[of ev pop] by simp
  moreover have "sorted_wrt (\<lambda>a b. fitness_ge (ev a) (ev b)) (r # rs)"
    using sorted_ranked[of ev pop] r by simp
  ultimately show ?thesis using r by (auto simp: fitness_ge_refl)
qed

lemma next_generation_best:
  assumes "1 \<le> E" "pop \<noteq> []"
  shows "\<exists>f f'. best_fitness ev pop = Some f \<and> best_fitness ev (next_generation ev E pop off) = Some f'
     \<and> fitness_ge f' f"
proof -
  from assms obtain f where f: "best_fitness ev pop = Some f" by (cases pop) auto
  then obtain d where d: "d \<in> set pop" "f = ev d" using best_fitness_is_member by blast
  from assms have ne: "ranked ev pop \<noteq> []" using set_ranked[of ev pop] by auto
  then have "hd (ranked ev pop) \<in> set (take E (ranked ev pop))"
    using assms(1) by (cases "ranked ev pop"; cases E) auto
  then have "hd (ranked ev pop) \<in> set (next_generation ev E pop off)"
    by (simp add: next_generation_def elites_def)
  then obtain f' where f': "best_fitness ev (next_generation ev E pop off) = Some f'"
    "fitness_ge f' (ev (hd (ranked ev pop)))"
    using best_fitness_ge_member[of "hd (ranked ev pop)" "next_generation ev E pop off" ev] by auto
  have "fitness_ge (ev (hd (ranked ev pop))) f" using hd_ranked_best[OF assms(2) d(1)] d(2) by simp
  with f' f show ?thesis by (auto intro: fitness_ge_trans)
qed

lemma population_at_nonempty:
  "1 \<le> E \<Longrightarrow> initial \<noteq> [] \<Longrightarrow> population_at ev E initial off g \<noteq> []"
proof (induction g)
  case 0
  then show ?case by simp
next
  case (Suc g)
  then have "ranked ev (population_at ev E initial off g) \<noteq> []"
    using set_ranked[of ev "population_at ev E initial off g"] by auto
  with Suc.prems show ?case
    by (cases "ranked ev (population_at ev E initial off g)"; cases E)
       (auto simp: next_generation_def elites_def)
qed

text \<open>
  Claim C6. With an elite count of at least 1 and a population that is not empty at the
  start, every generation has a best fitness, and the best fitness of generation
  \<open>g + 1\<close> ranks at least as high as the best fitness of generation \<open>g\<close>, whatever
  selection, crossover and mutation produce.
\<close>

theorem elitism_monotone:
  assumes "1 \<le> E" and "initial \<noteq> []"
  shows "\<exists>f f'. best_fitness evaluate (population_at evaluate E initial offspring g) = Some f
     \<and> best_fitness evaluate (population_at evaluate E initial offspring (Suc g)) = Some f'
     \<and> fitness_ge f' f"
  using next_generation_best[OF assms(1) population_at_nonempty[OF assms]] by simp

theorem elitism_monotone_witness:
  "(1::nat) \<le> 1 \<and> [3, 1, 2 :: nat] \<noteq> []
   \<and> (\<exists>f f'. best_fitness example_evaluate
                 (population_at example_evaluate 1 [3, 1, 2] (\<lambda>g. [5, 4]) 0) = Some f
        \<and> best_fitness example_evaluate
                 (population_at example_evaluate 1 [3, 1, 2] (\<lambda>g. [5, 4]) (Suc 0)) = Some f'
        \<and> fitness_ge f' f)"
  using elitism_monotone [of 1 "[3, 1, 2 :: nat]" example_evaluate "\<lambda>g. [5, 4]" 0]
  by simp


section \<open>Strings, sorting and rendering\<close>

lemma js_split_first: "(case js_split c s of p # ps \<Rightarrow> p | [] \<Rightarrow> []) = takeWhile (\<lambda>x. x \<noteq> c) s"
  by (induction s) (auto split: list.splits)

lemma slot_start_takeWhile: "slot_start s = takeWhile (\<lambda>x. x \<noteq> CHR ''-'') s"
  by (simp add: slot_start_def js_split_first)

lemma js_split_nonempty: "js_split c s \<noteq> []"
  by (induction s) (auto split: list.splits)

lemma js_split_second: "(\<exists>a b rest. js_split c s = a # b # rest) = (c \<in> set s)"
proof (induction s)
  case Nil
  show ?case by simp
next
  case (Cons x xs)
  obtain p ps where p: "js_split c xs = p # ps"
    using js_split_nonempty[of c xs] by (cases "js_split c xs") auto
  with Cons show ?case by auto
qed

lemma formatTimeSlotLabel_ok: "(\<exists>l. formatTimeSlotLabel slot = Inr l) = (CHR ''-'' \<in> set slot)"
proof -
  have "(\<exists>l. formatTimeSlotLabel slot = Inr l) = (\<exists>a b rest. js_split CHR ''-'' slot = a # b # rest)"
    by (auto simp: formatTimeSlotLabel_def split: list.splits)
  then show ?thesis by (simp add: js_split_second)
qed

lemma set_sort_insert: "set (sort_insert cmp x ys) = insert x (set ys)"
  by (induction ys) auto

lemma set_js_sort: "set (js_sort cmp xs) = set xs"
  by (induction xs) (auto simp: js_sort_def set_sort_insert)

lemma sorted_sort_insert:
  fixes key :: "'a \<Rightarrow> string"
  assumes "\<forall>a\<in>insert x (set ys). \<forall>b\<in>insert x (set ys). (cmp a b \<le> 0) = (key a \<le> key b)"
    and "sorted_wrt (\<lambda>a b. key a \<le> key b) ys"
  shows "sorted_wrt (\<lambda>a b. key a \<le> key b) (sort_insert cmp x ys)"
  using assms
proof (induction ys)
  case Nil
  show ?case by simp
next
  case (Cons y ys)
  show ?case
  proof (cases "cmp x y \<le> 0")
    case True
    with Cons.prems have "key x \<le> key y" by simp
    with True Cons.prems show ?thesis by auto
  next
    case False
    with Cons.prems have "\<not> key x \<le> key y" by simp
    then have yx: "key y \<le> key x" by simp
    have "sorted_wrt (\<lambda>a b. key a \<le> key b) (sort_insert cmp x ys)"
      using Cons.IH Cons.prems by simp
    with False yx Cons.prems show ?thesis by (auto simp: set_sort_insert)
  qed
qed

lemma sorted_js_sort:
  fixes key :: "'a \<Rightarrow> string"
  assumes "\<forall>a\<in>set xs. \<forall>b\<in>set xs. (cmp a b \<le> 0) = (key a \<le> key b)"
  shows "sorted_wrt (\<lambda>a b. key a \<le> key b) (js_sort cmp xs)"
  using assms
proof (induction xs)
  case Nil
  show ?case by (simp add: js_sort_def)
next
  case (Cons x xs)
  have "sorted_wrt (\<lambda>a b. key a \<le> key b) (js_sort cmp xs)"
    using Cons by simp
  moreover have "\<forall>a\<in>insert x (set (js_sort cmp xs)). \<forall>b\<in>insert x (set (js_sort cmp xs)).
      (cmp a b \<le> 0) = (key a \<le> key b)"
    using Cons.prems by (simp add: set_js_sort)
  ultimately have "sorted_wrt (\<lambda>a b. key a \<le> key b) (sort_insert cmp x (js_sort cmp xs))"
    by (rule sorted_sort_insert[rotated])
  then show ?case by (simp add: js_sort_def)
qed

lemma set_timeSlots_of:
  "set (timeSlots_of cmp sched) =
     (if list_ex isLunchSlot (allTimeSlots sched) then set (allTimeSlots sched)
      else insert ''13:00:00-13:45:00'' (set (allTimeSlots sched)))"
proof -
  have "isLunchSlot = (\<lambda>slot. startsWith slot LUNCH_START_PREFIX)"
    by (simp add: fun_eq_iff isLunchSlot_def)
  then show ?thesis by (simp add: timeSlots_of_def Let_def set_js_sort)
qed

lemma timeSlots_of_sorted:
  assumes "code_unit_order_on cmp (''13:00:00-13:45:00'' # allTimeSlots sched)"
  shows "sorted_wrt (\<lambda>a b. slot_start a \<le> slot_start b) (timeSlots_of cmp sched)"
proof -
  let ?S = "insert ''13:00:00-13:45:00'' (set (allTimeSlots sched))"
  from assms have ag: "\<forall>a\<in>?S. \<forall>b\<in>?S.
      (cmp (slot_start a) (slot_start b) \<le> 0) = (slot_start a \<le> slot_start b)"
    unfolding code_unit_order_on_def list_all_iff by simp
  show ?thesis
    unfolding timeSlots_of_def Let_def
    by (rule sorted_js_sort) (use ag in auto)
qed

lemma render_row_fields:
  "render_row sched t = Inr r \<Longrightarrow>
     row_slot r = t \<and> row_lunch r = isLunchSlot t
     \<and> row_cells r = map (render_cell sched t (isLunchSlot t)) days"
  by (auto simp: render_row_def Let_def split: sum.splits)

lemma render_rows_fields:
  "render_rows sched ts = Inr rows \<Longrightarrow>
     map row_slot rows = ts
     \<and> (\<forall>r\<in>set rows. row_lunch r = isLunchSlot (row_slot r)
           \<and> row_cells r = map (render_cell sched (row_slot r) (isLunchSlot (row_slot r))) days)"
proof (induction ts arbitrary: rows)
  case Nil
  then show ?case by simp
next
  case (Cons t ts)
  from Cons.prems obtain r rs where r: "render_row sched t = Inr r"
    and rs: "render_rows sched ts = Inr rs" and rows: "rows = r # rs"
    by (auto split: sum.splits)
  from render_row_fields[OF r] Cons.IH[OF rs] rows show ?case by simp
qed

lemma render_rows_ok:
  "(\<exists>rows. render_rows sched ts = Inr rows) = (\<forall>t\<in>set ts. CHR ''-'' \<in> set t)"
proof (induction ts)
  case Nil
  show ?case by simp
next
  case (Cons t ts)
  have "(\<exists>r. render_row sched t = Inr r) = (CHR ''-'' \<in> set t)"
    using formatTimeSlotLabel_ok[of t] by (auto simp: render_row_def Let_def split: sum.splits)
  with Cons show ?case by (auto split: sum.splits)
qed

lemma TimetableGrid_rows:
  "TimetableGrid cmp props = Inr view \<Longrightarrow>
     render_rows (schedule props) (timeSlots_of cmp (schedule props)) = Inr (view_rows view)
     \<and> view_legend view = courseLegend_of (schedule props)"
  by (auto simp: TimetableGrid_def TimetableGrid_render_def TimetableGrid_effect_def split: sum.splits)

lemma codeUnitCompare_le: "(codeUnitCompare a b \<le> 0) = (a \<le> b)"
  by (auto simp: codeUnitCompare_def)

lemma code_unit_order_on_codeUnitCompare: "code_unit_order_on codeUnitCompare slots"
  by (simp add: code_unit_order_on_def list_all_iff codeUnitCompare_le)

lemma collation_weight_digits:
  assumes "CHR ''0'' \<le> x \<and> x \<le> CHR ''9''" and "CHR ''0'' \<le> y \<and> y \<le> CHR ''9''"
  shows "(collation_weight x < collation_weight y) = (x < y)"
  using assms by (simp add: collation_weight_def less_char_def)

lemma collationCompare_same_shape:
  assumes "list_all2 (\<lambda>x y. x = y \<or> (CHR ''0'' \<le> x \<and> x \<le> CHR ''9'') \<and> (CHR ''0'' \<le> y \<and> y \<le> CHR ''9'')) a b"
  shows "(collationCompare a b \<le> 0) = (a \<le> b)"
  using assms
proof (induction rule: list_all2_induct)
  case Nil
  show ?case by simp
next
  case (Cons x xs y ys)
  show ?case
  proof (cases "x = y")
    case True
    with Cons.IH show ?thesis by simp
  next
    case False
    with Cons.hyps have d: "CHR ''0'' \<le> x \<and> x \<le> CHR ''9''" "CHR ''0'' \<le> y \<and> y \<le> CHR ''9''"
      by auto
    show ?thesis
    proof (cases "x < y")
      case True
      with collation_weight_digits[OF d] show ?thesis by simp
    next
      case ge: False
      with False have "y < x" by simp
      with ge False collation_weight_digits[OF d] collation_weight_digits[OF d(2) d(1)]
      show ?thesis by simp
    qed
  qed
qed

lemma same_template:
  "list_all2 P ts a \<Longrightarrow> list_all2 P ts b \<Longrightarrow> list_all2 (\<lambda>x y. \<exists>t. P t x \<and> P t y) a b"
proof (induction ts arbitrary: a b)
  case Nil
  then show ?case by simp
next
  case (Cons t ts)
  then show ?case by (auto simp: list_all2_Cons1)
qed

lemma collationCompare_hh_mm_ss:
  assumes "hh_mm_ss a" and "hh_mm_ss b"
  shows "(collationCompare a b \<le> 0) = (a \<le> b)"
proof (rule collationCompare_same_shape)
  from same_template[OF assms[unfolded hh_mm_ss_def]]
  show "list_all2 (\<lambda>x y. x = y \<or> (CHR ''0'' \<le> x \<and> x \<le> CHR ''9'') \<and> (CHR ''0'' \<le> y \<and> y \<le> CHR ''9'')) a b"
    by (rule list_all2_mono) (auto split: if_splits)
qed

lemma collation_orders_padded:
  assumes "list_all (\<lambda>s. hh_mm_ss (slot_start s)) slots"
  shows "code_unit_order_on collationCompare slots"
  using assms by (simp add: code_unit_order_on_def list_all_iff collationCompare_hh_mm_ss)

lemma rows_ordered_for_hh_mm_ss:
  assumes "list_all (\<lambda>s. hh_mm_ss (slot_start s)) (allTimeSlots sched)"
  shows "sorted_wrt (\<lambda>a b. slot_start a \<le> slot_start b) (timeSlots_of collationCompare sched)"
proof (rule timeSlots_of_sorted, rule collation_orders_padded)
  have "hh_mm_ss (slot_start ''13:00:00-13:45:00'')"
    by (simp add: hh_mm_ss_def slot_start_def)
  with assms show "list_all (\<lambda>s. hh_mm_ss (slot_start s)) (''13:00:00-13:45:00'' # allTimeSlots sched)"
    by simp
qed

lemma foldl_filter_skip:
  "(\<And>acc x. \<not> P x \<Longrightarrow> f acc x = acc) \<Longrightarrow> foldl f acc (filter P xs) = foldl f acc xs"
  by (induction xs arbitrary: acc) simp_all

lemma allTimeSlots_weekdays:
  "allTimeSlots (filter (\<lambda>e. fst e \<in> set days) sched) = allTimeSlots sched"
  unfolding allTimeSlots_def by (rule foldl_filter_skip) (simp add: collect_day_def)

lemma legendMap_of_weekdays:
  "legendMap_of (filter (\<lambda>e. fst e \<in> set days) sched) = legendMap_of sched"
  unfolding legendMap_of_def by (rule foldl_filter_skip) (simp add: legend_day_def)

lemma map_of_filter_key:
  "P k \<Longrightarrow> map_of (filter (\<lambda>e. P (fst e)) xs) k = map_of xs k"
  by (induction xs) auto

lemma cell_at_weekdays:
  "day \<in> set days \<Longrightarrow> cell_at (filter (\<lambda>e. fst e \<in> set days) sched) day t = cell_at sched day t"
  using map_of_filter_key[of "\<lambda>d. d \<in> set days" day sched] by (simp add: cell_at_def)

lemma render_cells_weekdays:
  "map (render_cell (filter (\<lambda>e. fst e \<in> set days) sched) t l) days = map (render_cell sched t l) days"
  by (rule map_cong) (simp_all add: render_cell_def cell_at_weekdays)

lemma render_row_weekdays:
  "render_row (filter (\<lambda>e. fst e \<in> set days) sched) t = render_row sched t"
  by (simp add: render_row_def Let_def render_cells_weekdays split: sum.splits)

lemma render_rows_weekdays:
  "render_rows (filter (\<lambda>e. fst e \<in> set days) sched) ts = render_rows sched ts"
  by (induction ts) (simp_all add: render_row_weekdays split: sum.splits)

lemma set_foldl_set_add: "set (foldl (\<lambda>acc k. set_add k acc) acc ks) = set acc \<union> set ks"
  by (induction ks arbitrary: acc) (auto simp: set_add_def)

lemma set_foldl_collect_day:
  "set (foldl collect_day acc sched) =
     set acc \<union> {k. \<exists>e\<in>set sched. fst e \<in> set days \<and> k \<in> set (map fst (snd e))}"
  by (induction sched arbitrary: acc) (auto simp: collect_day_def set_foldl_set_add)

lemma set_allTimeSlots:
  "set (allTimeSlots sched) = {k. \<exists>e\<in>set sched. fst e \<in> set days \<and> k \<in> set (map fst (snd e))}"
  by (simp add: allTimeSlots_def set_foldl_collect_day)

lemma isLunchSlot_canonical: "isLunchSlot ''13:00:00-13:45:00''"
  by (simp add: isLunchSlot_def startsWith_def LUNCH_START_PREFIX_def)

lemma lunch_among_timeSlots: "\<exists>t\<in>set (timeSlots_of cmp sched). isLunchSlot t"
  by (auto simp: set_timeSlots_of list_ex_iff isLunchSlot_canonical)

lemma length_lunch_prefix: "length ''13:00'' = 5"
  by simp

lemma isLunchSlot_start:
  "isLunchSlot slot = startsWith (takeWhile (\<lambda>x. x \<noteq> CHR ''-'') slot) ''13:00''"
proof
  assume "isLunchSlot slot"
  then have t: "take 5 slot = ''13:00''"
    unfolding isLunchSlot_def startsWith_def LUNCH_START_PREFIX_def length_lunch_prefix .
  then have e: "''13:00'' @ drop 5 slot = slot"
    by (metis append_take_drop_id)
  have "startsWith (takeWhile (\<lambda>x. x \<noteq> CHR ''-'') (''13:00'' @ drop 5 slot)) ''13:00''"
    by (simp add: startsWith_def)
  then show "startsWith (takeWhile (\<lambda>x. x \<noteq> CHR ''-'') slot) ''13:00''"
    unfolding e .
next
  assume "startsWith (takeWhile (\<lambda>x. x \<noteq> CHR ''-'') slot) ''13:00''"
  then have t: "take 5 (takeWhile (\<lambda>x. x \<noteq> CHR ''-'') slot) = ''13:00''"
    unfolding startsWith_def length_lunch_prefix .
  then have "length (take 5 (takeWhile (\<lambda>x. x \<noteq> CHR ''-'') slot)) = 5" by simp
  then have len: "5 \<le> length (takeWhile (\<lambda>x. x \<noteq> CHR ''-'') slot)" by simp
  have "take 5 (takeWhile (\<lambda>x. x \<noteq> CHR ''-'') slot @ dropWhile (\<lambda>x. x \<noteq> CHR ''-'') slot)
      = take 5 (takeWhile (\<lambda>x. x \<noteq> CHR ''-'') slot)"
    using len by (simp del: takeWhile_dropWhile_id)
  then have "take 5 slot = ''13:00''" using t by simp
  then show "isLunchSlot slot"
    unfolding isLunchSlot_def startsWith_def LUNCH_START_PREFIX_def length_lunch_prefix .
qed

lemma lunch_cells: "map (render_cell sched t True) days = map (\<lambda>day. (day, Lunch_break)) days"
  by (simp add: render_cell_def)


section \<open>The rows of the grid\<close>

text \<open>
  Claim C7, as amended. The rows are in the order of their start times whenever the
  comparison of the JavaScript engine, a parameter here, orders the start times of the
  schedule's Monday to Friday slots and of the injected lunch slot as the lexicographic
  order on character codes does; start times of the fixed-width form \<open>HH:MM:SS\<close> are
  ordered so. Then the time slots kept by the grid are sorted by the part before the
  first \<open>-\<close>, and in every rendered grid the start time of each row is lexicographically
  less than or equal to that of the row after it.
\<close>

theorem rows_ordered_by_start:
  assumes "code_unit_order_on localeCompare (''13:00:00-13:45:00'' # allTimeSlots (schedule props))"
  shows "sorted_wrt (\<lambda>a b. slot_start a \<le> slot_start b) (timeSlots (TimetableGrid_effect localeCompare props))
    \<and> (\<forall>view i. TimetableGrid localeCompare props = Inr view \<and> Suc i < length (view_rows view)
          \<longrightarrow> takeWhile (\<lambda>x. x \<noteq> CHR ''-'') (row_slot (view_rows view ! i))
                \<le> takeWhile (\<lambda>x. x \<noteq> CHR ''-'') (row_slot (view_rows view ! Suc i)))"
proof (intro conjI allI impI)
  show s: "sorted_wrt (\<lambda>a b. slot_start a \<le> slot_start b) (timeSlots (TimetableGrid_effect localeCompare props))"
    using timeSlots_of_sorted[OF assms] by (simp add: TimetableGrid_effect_def)
  fix view i
  assume h: "TimetableGrid localeCompare props = Inr view \<and> Suc i < length (view_rows view)"
  then have m: "map row_slot (view_rows view) = timeSlots_of localeCompare (schedule props)"
    using TimetableGrid_rows render_rows_fields by blast
  have "sorted_wrt (\<lambda>a b. slot_start a \<le> slot_start b) (map row_slot (view_rows view))"
    using timeSlots_of_sorted[OF assms] m by simp
  then have "sorted_wrt (\<lambda>r1 r2. slot_start (row_slot r1) \<le> slot_start (row_slot r2)) (view_rows view)"
    by (simp add: sorted_wrt_map)
  then have "slot_start (row_slot (view_rows view ! i)) \<le> slot_start (row_slot (view_rows view ! Suc i))"
    using h sorted_wrt_nth_less[of _ "view_rows view" i "Suc i"] by simp
  then show "takeWhile (\<lambda>x. x \<noteq> CHR ''-'') (row_slot (view_rows view ! i))
                \<le> takeWhile (\<lambda>x. x \<noteq> CHR ''-'') (row_slot (view_rows view ! Suc i))"
    by (simp add: slot_start_takeWhile)
qed

theorem rows_ordered_by_start_witness:
  "code_unit_order_on collationCompare (''13:00:00-13:45:00'' # allTimeSlots (schedule example_props))
   \<and> timeSlots (TimetableGrid_effect collationCompare example_props) =
       [''09:00:00-10:00:00'', ''10:00:00-11:00:00'', ''13:00:00-14:00:00'']
   \<and> sorted_wrt (\<lambda>a b. slot_start a \<le> slot_start b)
        (timeSlots (TimetableGrid_effect collationCompare example_props))"
proof -
  have "list_all (\<lambda>s. hh_mm_ss (slot_start s))
      (''13:00:00-13:45:00'' # allTimeSlots (schedule example_props))"
    by (simp add: hh_mm_ss_def slot_start_def allTimeSlots_def collect_day_def days_def set_add_def
        example_props_def example_week_def)
  then have h: "code_unit_order_on collationCompare
      (''13:00:00-13:45:00'' # allTimeSlots (schedule example_props))"
    by (rule collation_orders_padded)
  have "timeSlots (TimetableGrid_effect collationCompare example_props) =
       [''09:00:00-10:00:00'', ''10:00:00-11:00:00'', ''13:00:00-14:00:00'']"
    by (simp add: TimetableGrid_effect_def timeSlots_of_def allTimeSlots_def collect_day_def
        days_def set_add_def startsWith_def LUNCH_START_PREFIX_def js_sort_def slot_start_def
        collation_weight_def example_week_def example_props_def)
  with h rows_ordered_by_start [OF h] show ?thesis by simp
qed

text \<open>
  Claim C7 as stated fails. Time slots are plain strings, and the engine's comparison
  puts \<open>:\<close> before the digits: with the Monday slots \<open>10:00:00-11:00:00\<close>,
  \<open>1:00:00-2:00:00\<close> and \<open>9:00:00-10:00:00\<close> the first row starts at \<open>1:00:00\<close> and the
  second at \<open>10:00:00\<close>, which is lexicographically the smaller of the two.
\<close>

theorem rows_ordered_by_start_counterexample:
  "(\<exists>view. TimetableGrid collationCompare \<lparr>schedule = example_unpadded, title = None\<rparr> = Inr view
      \<and> map row_slot (view_rows view) =
          [''1:00:00-2:00:00'', ''10:00:00-11:00:00'', ''13:00:00-13:45:00'', ''9:00:00-10:00:00'']
      \<and> Suc 0 < length (view_rows view)
      \<and> \<not> takeWhile (\<lambda>x. x \<noteq> CHR ''-'') (row_slot (view_rows view ! 0))
            \<le> takeWhile (\<lambda>x. x \<noteq> CHR ''-'') (row_slot (view_rows view ! Suc 0)))
   \<and> \<not> code_unit_order_on collationCompare
         (''13:00:00-13:45:00'' # allTimeSlots example_unpadded)"
  by (simp add: TimetableGrid_def TimetableGrid_effect_def TimetableGrid_render_def timeSlots_of_def
      allTimeSlots_def collect_day_def days_def set_add_def startsWith_def LUNCH_START_PREFIX_def
      js_sort_def slot_start_def collation_weight_def render_row_def render_cell_def cell_at_def
      formatTimeSlotLabel_def isLunchSlot_def courseLegend_of_def legendMap_of_def legend_day_def
      add_legend_def course_key_def example_unpadded_def code_unit_order_on_def Let_def)

text \<open>
  Claim C4. The time slots of the grid always include a lunch slot, one that starts with
  \<open>13:00\<close>; when no time slot of the schedule starts with \<open>13:00\<close> it is the injected
  \<open>13:00:00-13:45:00\<close>. The grid renders whenever every Monday to Friday time slot has a
  \<open>-\<close>. Every rendered grid has a lunch row, and in every row whose slot starts with
  \<open>13:00\<close> the start time begins with \<open>13:00\<close> and each of the five day columns shows
  the lunch break and no class, whatever the schedule holds for that slot.
\<close>

theorem lunch_row_rendered:
  "(\<exists>t\<in>set (timeSlots (TimetableGrid_effect localeCompare props)). isLunchSlot t)
   \<and> ((\<forall>e\<in>set (schedule props). \<forall>k\<in>set (map fst (snd e)). \<not> isLunchSlot k)
        \<longrightarrow> ''13:00:00-13:45:00'' \<in> set (timeSlots (TimetableGrid_effect localeCompare props)))
   \<and> ((\<forall>k\<in>set (allTimeSlots (schedule props)). CHR ''-'' \<in> set k)
        \<longrightarrow> (\<exists>view. TimetableGrid localeCompare props = Inr view))
   \<and> (\<forall>view. TimetableGrid localeCompare props = Inr view \<longrightarrow>
         (\<exists>r\<in>set (view_rows view). isLunchSlot (row_slot r))
         \<and> (\<forall>r\<in>set (view_rows view). isLunchSlot (row_slot r) \<longrightarrow>
               row_lunch r
               \<and> startsWith (takeWhile (\<lambda>x. x \<noteq> CHR ''-'') (row_slot r)) ''13:00''
               \<and> row_cells r = map (\<lambda>day. (day, Lunch_break)) days))"
proof (intro conjI allI impI)
  show "\<exists>t\<in>set (timeSlots (TimetableGrid_effect localeCompare props)). isLunchSlot t"
    using lunch_among_timeSlots by (simp add: TimetableGrid_effect_def)
next
  assume "\<forall>e\<in>set (schedule props). \<forall>k\<in>set (map fst (snd e)). \<not> isLunchSlot k"
  then have "\<not> list_ex isLunchSlot (allTimeSlots (schedule props))"
    by (auto simp: list_ex_iff set_allTimeSlots)
  then show "''13:00:00-13:45:00'' \<in> set (timeSlots (TimetableGrid_effect localeCompare props))"
    by (simp add: TimetableGrid_effect_def set_timeSlots_of)
next
  assume "\<forall>k\<in>set (allTimeSlots (schedule props)). CHR ''-'' \<in> set k"
  then have "\<forall>t\<in>set (timeSlots_of localeCompare (schedule props)). CHR ''-'' \<in> set t"
    by (simp add: set_timeSlots_of)
  then obtain rows where "render_rows (schedule props) (timeSlots_of localeCompare (schedule props)) = Inr rows"
    using render_rows_ok by blast
  then show "\<exists>view. TimetableGrid localeCompare props = Inr view"
    by (simp add: TimetableGrid_def TimetableGrid_render_def TimetableGrid_effect_def)
next
  fix view
  assume v: "TimetableGrid localeCompare props = Inr view"
  from TimetableGrid_rows[OF v]
  have rr: "render_rows (schedule props) (timeSlots_of localeCompare (schedule props)) = Inr (view_rows view)"
    by simp
  from render_rows_fields[OF rr]
  have m: "map row_slot (view_rows view) = timeSlots_of localeCompare (schedule props)"
    and f: "\<forall>r\<in>set (view_rows view). row_lunch r = isLunchSlot (row_slot r)
           \<and> row_cells r = map (render_cell (schedule props) (row_slot r) (isLunchSlot (row_slot r))) days"
    by simp_all
  from lunch_among_timeSlots[of localeCompare "schedule props"] m
  have "\<exists>t\<in>set (map row_slot (view_rows view)). isLunchSlot t" by simp
  then show "\<exists>r\<in>set (view_rows view). isLunchSlot (row_slot r)" by auto
  show "\<forall>r\<in>set (view_rows view). isLunchSlot (row_slot r) \<longrightarrow>
               row_lunch r
               \<and> startsWith (takeWhile (\<lambda>x. x \<noteq> CHR ''-'') (row_slot r)) ''13:00''
               \<and> row_cells r = map (\<lambda>day. (day, Lunch_break)) days"
  proof (intro ballI impI conjI)
    fix r
    assume r: "r \<in> set (view_rows view)" and l: "isLunchSlot (row_slot r)"
    from f r l show "row_lunch r" by simp
    from l show "startsWith (takeWhile (\<lambda>x. x \<noteq> CHR ''-'') (row_slot r)) ''13:00''"
      by (simp add: isLunchSlot_start)
    from f r l show "row_cells r = map (\<lambda>day. (day, Lunch_break)) days"
      by (simp add: lunch_cells)
  qed
qed

theorem lunch_row_rendered_witness:
  "\<exists>view. TimetableGrid codeUnitCompare example_props = Inr view
     \<and> map row_slot (view_rows view) = [''09:00:00-10:00:00'', ''10:00:00-11:00:00'', ''13:00:00-14:00:00'']
     \<and> cell_at (schedule example_props) ''Tuesday'' ''13:00:00-14:00:00'' \<noteq> []
     \<and> map row_cells (filter (\<lambda>r. isLunchSlot (row_slot r)) (view_rows view)) =
         [[(''Monday'', Lunch_break), (''Tuesday'', Lunch_break), (''Wednesday'', Lunch_break),
           (''Thursday'', Lunch_break), (''Friday'', Lunch_break)]]"
  using lunch_row_rendered [of codeUnitCompare example_props]
  by (simp add: TimetableGrid_def TimetableGrid_effect_def TimetableGrid_render_def timeSlots_of_def
      allTimeSlots_def collect_day_def days_def set_add_def startsWith_def LUNCH_START_PREFIX_def
      js_sort_def slot_start_def codeUnitCompare_def example_week_def example_props_def
      render_row_def render_cell_def cell_at_def formatTimeSlotLabel_def isLunchSlot_def
      courseLegend_of_def legendMap_of_def legend_day_def add_legend_def course_key_def)

text \<open>
  Claim C8. Only Monday to Friday are rendered: the grid built from a schedule is the
  grid built from its Monday to Friday entries alone, in its time slots, in its legend
  and in what it renders, so entries under any other day add no row and no legend entry.
\<close>

theorem only_weekdays_rendered:
  "TimetableGrid_effect localeCompare (props\<lparr>schedule := filter (\<lambda>e. fst e \<in> set days) (schedule props)\<rparr>)
     = TimetableGrid_effect localeCompare props
   \<and> TimetableGrid localeCompare (props\<lparr>schedule := filter (\<lambda>e. fst e \<in> set days) (schedule props)\<rparr>)
     = TimetableGrid localeCompare props"
  by (simp add: TimetableGrid_def TimetableGrid_effect_def TimetableGrid_render_def timeSlots_of_def
      courseLegend_of_def allTimeSlots_weekdays legendMap_of_weekdays render_rows_weekdays
      split: sum.splits)

theorem only_weekdays_rendered_witness:
  "map fst (filter (\<lambda>e. fst e \<in> set days) (schedule example_props)) = [''Monday'', ''Tuesday'']
   \<and> map fst (schedule example_props) = [''Monday'', ''Saturday'', ''Tuesday'']
   \<and> TimetableGrid codeUnitCompare
        (example_props\<lparr>schedule := filter (\<lambda>e. fst e \<in> set days) (schedule example_props)\<rparr>)
      = TimetableGrid codeUnitCompare example_props"
proof -
  have "map fst (schedule example_props) = [''Monday'', ''Saturday'', ''Tuesday'']"
    by (simp add: example_props_def example_week_def)
  moreover have "map fst (filter (\<lambda>e. fst e \<in> set days) (schedule example_props)) = [''Monday'', ''Tuesday'']"
    by (simp add: example_props_def example_week_def days_def)
  ultimately show ?thesis
    using only_weekdays_rendered [of codeUnitCompare example_props] by simp
qed


section \<open>The course legend\<close>


lemma map_fst_modify: "map fst (modify k f m) = map fst m"
  by (induction m) auto

lemma modify_distinct:
  "distinct (map fst m) \<Longrightarrow>
     modify k f m = map (\<lambda>e. if fst e = k then (fst e, f (snd e)) else e) m"
proof (induction m)
  case Nil
  show ?case by simp
next
  case (Cons e m)
  obtain k' v where e: "e = (k', v)" by (cases e)
  show ?case
  proof (cases "k = k'")
    case True
    with Cons.prems e have "\<forall>x\<in>set m. fst x \<noteq> k" by auto
    then have "map (\<lambda>e. if fst e = k then (fst e, f (snd e)) else e) m = m"
      by (induction m) auto
    with True e show ?thesis by simp
  next
    case False
    with Cons e show ?thesis by auto
  qed
qed

lemma foldl_concat: "foldl (\<lambda>m xs. foldl f m xs) acc xss = foldl f acc (concat xss)"
  by (induction xss arbitrary: acc) simp_all

lemma foldl_legend_day:
  "foldl legend_day acc sched = foldl add_legend acc (weekday_classes sched)"
  by (induction sched arbitrary: acc) (simp_all add: legend_day_def weekday_classes_def foldl_concat)

lemma legendMap_of_classes: "legendMap_of sched = foldl add_legend [] (weekday_classes sched)"
  by (simp add: legendMap_of_def foldl_legend_day)

lemma set_weekday_classes:
  "set (weekday_classes sched) =
     {c. \<exists>e\<in>set sched. fst e \<in> set days \<and> (\<exists>e'\<in>set (snd e). c \<in> set (snd e'))}"
  by (auto simp: weekday_classes_def)

lemma set_set_add: "set (set_add x xs) = insert x (set xs)"
  by (auto simp: set_add_def)

lemma distinct_set_add: "distinct xs \<Longrightarrow> distinct (set_add x xs)"
  by (auto simp: set_add_def)

lemma legend_inv_step:
  assumes "legend_inv m cs"
  shows "legend_inv (add_legend m c) (cs @ [c])"
proof (cases "map_of m (course_key c) = None")
  case True
  then have nk: "course_key c \<notin> set (map fst m)" by (simp add: map_of_eq_None_iff)
  have a: "add_legend m c = m @ [(course_key c,
      \<lparr>legend_course_id = course_id c, legend_course = course c, instructors = [instructor c]\<rparr>)]"
    using True by (simp add: add_legend_def Let_def)
  have "course_key c \<notin> course_key ` set cs"
    using nk assms by (simp add: legend_inv_def)
  then have nk3: "\<And>c'. c' \<in> set cs \<Longrightarrow> course_key c' \<noteq> course_key c"
    by (metis image_eqI)
  have new: "{instructor c' |c'. c' \<in> set (cs @ [c]) \<and> course_key c' = course_key c} = {instructor c}"
    using nk3 by auto
  have old: "\<And>e. e \<in> set m \<Longrightarrow>
      {instructor c' |c'. c' \<in> set (cs @ [c]) \<and> course_key c' = fst e}
        = {instructor c' |c'. c' \<in> set cs \<and> course_key c' = fst e}"
    using nk by auto
  show ?thesis
    unfolding a legend_inv_def
    using assms nk new old
    by (auto simp: legend_inv_def legend_key_def course_key_def)
next
  case False
  then have k: "course_key c \<in> set (map fst m)" by (simp add: map_of_eq_None_iff)
  from assms have d: "distinct (map fst m)" by (simp add: legend_inv_def)
  let ?f = "\<lambda>item. item\<lparr>instructors := set_add (instructor c) (instructors item)\<rparr>"
  have a: "add_legend m c = map (\<lambda>e. if fst e = course_key c then (fst e, ?f (snd e)) else e) m"
    using False modify_distinct[OF d, of "course_key c" ?f] by (simp add: add_legend_def Let_def)
  have keys: "map fst (add_legend m c) = map fst m"
    using False by (simp add: add_legend_def Let_def map_fst_modify)
  have items: "\<forall>e\<in>set (add_legend m c). legend_key (snd e) = fst e
            \<and> distinct (instructors (snd e))
            \<and> set (instructors (snd e)) = {instructor c' |c'. c' \<in> set (cs @ [c]) \<and> course_key c' = fst e}"
  proof
    fix e'
    assume "e' \<in> set (add_legend m c)"
    then have "e' \<in> (\<lambda>e. if fst e = course_key c then (fst e, ?f (snd e)) else e) ` set m"
      unfolding a by simp
    then obtain e where e': "e' = (if fst e = course_key c then (fst e, ?f (snd e)) else e)"
      and e: "e \<in> set m"
      by (rule imageE)
    from assms e have ie: "legend_key (snd e) = fst e" "distinct (instructors (snd e))"
      "set (instructors (snd e)) = {instructor c' |c'. c' \<in> set cs \<and> course_key c' = fst e}"
      by (auto simp: legend_inv_def)
    show "legend_key (snd e') = fst e'
            \<and> distinct (instructors (snd e'))
            \<and> set (instructors (snd e')) = {instructor c' |c'. c' \<in> set (cs @ [c]) \<and> course_key c' = fst e'}"
    proof (cases "fst e = course_key c")
      case True
      with e' have "e' = (fst e, ?f (snd e))" by simp
      with True ie show ?thesis
        by (auto simp: legend_key_def set_set_add distinct_set_add)
    next
      case False
      with e' have "e' = e" by simp
      with False ie show ?thesis by auto
    qed
  qed
  from assms k have ks: "set (map fst m) = course_key ` set (cs @ [c])"
    by (auto simp: legend_inv_def)
  show ?thesis
    unfolding legend_inv_def using keys d ks items by simp
qed

lemma legend_inv_foldl: "legend_inv (foldl add_legend [] cs) cs"
proof (induction cs rule: rev_induct)
  case Nil
  show ?case by (simp add: legend_inv_def)
next
  case (snoc c cs)
  then show ?case by (simp add: legend_inv_step)
qed

text \<open>
  Claim C10, as amended. The course legend has one entry for each course key that occurs
  on Monday to Friday and no other entry, the key of a class being its \<open>course_id\<close>, or
  its course name when the \<open>course_id\<close> is empty; no two entries have the same key. The
  instructors of an entry are the instructors of the Monday to Friday classes with the
  entry's key, each once; an instructor who has the key on another day only is not
  listed.
\<close>

theorem courseLegend_entries:
  "distinct (map legend_key (courseLegend_of sched))
   \<and> set (map legend_key (courseLegend_of sched)) = course_key ` set (weekday_classes sched)
   \<and> (\<forall>item\<in>set (courseLegend_of sched).
         distinct (instructors item)
         \<and> set (instructors item) =
             {instructor c |c. c \<in> set (weekday_classes sched) \<and> course_key c = legend_key item})"
proof -
  let ?m = "legendMap_of sched"
  have inv: "legend_inv ?m (weekday_classes sched)"
    by (simp add: legendMap_of_classes legend_inv_foldl)
  then have "map (\<lambda>e. legend_key (snd e)) ?m = map fst ?m"
    by (simp add: legend_inv_def)
  then have keys: "map legend_key (courseLegend_of sched) = map fst ?m"
    by (simp add: courseLegend_of_def comp_def)
  from inv show ?thesis
    unfolding keys unfolding courseLegend_of_def legend_inv_def by auto
qed

theorem courseLegend_entries_witness:
  "map legend_key (courseLegend_of example_week) = [''CS301'', ''Seminar'']
   \<and> map instructors (courseLegend_of example_week) = [[''Rao'', ''Iyer''], [''Rao'']]
   \<and> map legend_course (courseLegend_of example_week) = [''Databases'', ''Seminar'']"
proof -
  have l: "courseLegend_of example_week =
      [\<lparr>legend_course_id = ''CS301'', legend_course = ''Databases'', instructors = [''Rao'', ''Iyer'']\<rparr>,
       \<lparr>legend_course_id = [], legend_course = ''Seminar'', instructors = [''Rao'']\<rparr>]"
    by (simp add: courseLegend_of_def legendMap_of_def legend_day_def add_legend_def course_key_def
        set_add_def days_def example_week_def Let_def)
  show ?thesis
    using courseLegend_entries [of example_week] unfolding l by (simp add: legend_key_def)
qed


text \<open>
  Claim C10 as stated fails. In the example the course CS301 is taught by Rao on Monday
  and by Das on Saturday: both instructors appear with the key in the schedule, and the
  legend lists Rao alone.
\<close>

theorem courseLegend_entries_counterexample:
  "map legend_key (courseLegend_of example_saturday) = [''CS301'']
   \<and> map instructors (courseLegend_of example_saturday) = [[''Rao'']]
   \<and> map instructor (filter (\<lambda>c. course_key c = ''CS301'') (all_classes example_saturday))
       = [''Rao'', ''Das'']"
  by (simp add: courseLegend_of_def legendMap_of_def legend_day_def add_legend_def course_key_def
      legend_key_def set_add_def days_def all_classes_def example_saturday_def example_class_def
      Let_def)


section \<open>Grouping the schedule by section\<close>



























end
